theory Spec2Isabelle
  imports Main
begin

section \<open>Cache-consistent repositories (cached\_repository.go)\<close>

subsection \<open>Data\<close>

text \<open>
  A Go \<^verbatim>\<open>error\<close> is a value; \<^verbatim>\<open>nil\<close> is \<open>None\<close> of \<open>go_error option\<close>.
  A Go function returning \<^verbatim>\<open>(v, err)\<close> is modelled by a pair, since Go allows both
  components to be set. A pointer \<^verbatim>\<open>*T\<close> is a \<open>T option\<close> (\<open>None\<close> is the nil pointer),
  a slice is a \<open>list option\<close> (\<open>None\<close> is the nil slice).
\<close>

datatype go_error = GoError string

text \<open>The entities: only the two accessors the wrapper calls are named, the other
  attributes are carried along in one component.\<close>

record Field =
  field_ID :: string
  field_TableID :: string
  field_attrs :: string

record Record =
  record_ID :: string
  record_TableID :: string
  record_attrs :: string

text \<open>\<^verbatim>\<open>recordRepo.RecordFilter\<close>: \<^verbatim>\<open>TableID\<close> is a \<^verbatim>\<open>*string\<close>; \<^verbatim>\<open>Limit\<close> and
  \<^verbatim>\<open>Offset\<close> are Go ints. The filter's other criteria are kept in one component.\<close>

record RecordFilter =
  filter_TableID :: "string option"
  filter_Limit :: int
  filter_Offset :: int
  filter_criteria :: string

text \<open>
  Modelled from the spec: \<^verbatim>\<open>database.InTransaction(ctx)\<close> (package \<^verbatim>\<open>database\<close> is not among
  the sources) tells whether ``the calling context is marked as executing inside a
  write-transaction''. The context carries that mark.
\<close>

record go_context =
  InTransaction :: bool

text \<open>The value handed to \<^verbatim>\<open>CacheProvider.Set\<close>, one constructor per type the wrappers
  store. The last one is the anonymous struct \<^verbatim>\<open>{Records, Total}\<close> of \<^verbatim>\<open>List\<close>.\<close>

datatype cache_value =
    CV_Field "Field option"
  | CV_Fields "Field list option"
  | CV_Record "Record option"
  | CV_RecordList "Record list option" int

datatype log_level = Debug | Info | Warn

text \<open>
  Every call that leaves the wrapper (to the cache provider, to the wrapped repository,
  to the logger) is recorded, in order. \<^verbatim>\<open>time.Duration\<close> is an integer number of
  nanoseconds. A log entry keeps its level and its message, without the structured
  fields; the messages of \<^verbatim>\<open>FindByTableID\<close> are given in English.
\<close>

datatype call =
    Cache_Get string
  | Cache_Set string cache_value int
  | Cache_Delete "string list"
  | Cache_InvalidatePattern string
  | FieldRepo_FindByID string
  | FieldRepo_FindByTableID string
  | FieldRepo_Save Field
  | FieldRepo_BatchDelete "string list"
  | RecordRepo_FindByTableAndID string string
  | RecordRepo_Save Record
  | RecordRepo_List RecordFilter
  | RecordRepo_BatchDelete "string list"
  | Logger log_level string

text \<open>
  The collaborators are interfaces whose implementations are not part of the wrapper.
  Each method is a function of the calls made so far (so that a collaborator may keep
  state), of the context and of its arguments. \<^verbatim>\<open>Get\<close> decodes into the destination it
  is given: there is one component per destination type, returning the destination's
  content after the call and the error.
\<close>

record CacheProvider =
  cp_Get_Field :: "call list \<Rightarrow> go_context \<Rightarrow> string \<Rightarrow> Field option \<times> go_error option"
  cp_Get_Fields :: "call list \<Rightarrow> go_context \<Rightarrow> string \<Rightarrow> Field list option \<times> go_error option"
  cp_Get_Record :: "call list \<Rightarrow> go_context \<Rightarrow> string \<Rightarrow> Record option \<times> go_error option"
  cp_Get_RecordList ::
    "call list \<Rightarrow> go_context \<Rightarrow> string \<Rightarrow> (Record list option \<times> int) \<times> go_error option"
  cp_Set :: "call list \<Rightarrow> go_context \<Rightarrow> string \<Rightarrow> cache_value \<Rightarrow> int \<Rightarrow> go_error option"
  cp_Delete :: "call list \<Rightarrow> go_context \<Rightarrow> string list \<Rightarrow> go_error option"
  cp_InvalidatePattern :: "call list \<Rightarrow> go_context \<Rightarrow> string \<Rightarrow> go_error option"

record FieldRepository =
  fr_FindByID :: "call list \<Rightarrow> go_context \<Rightarrow> string \<Rightarrow> Field option \<times> go_error option"
  fr_FindByTableID ::
    "call list \<Rightarrow> go_context \<Rightarrow> string \<Rightarrow> Field list option \<times> go_error option"
  fr_Save :: "call list \<Rightarrow> go_context \<Rightarrow> Field \<Rightarrow> go_error option"
  fr_BatchDelete :: "call list \<Rightarrow> go_context \<Rightarrow> string list \<Rightarrow> go_error option"

record RecordRepository =
  rr_FindByTableAndID ::
    "call list \<Rightarrow> go_context \<Rightarrow> string \<Rightarrow> string \<Rightarrow> Record option \<times> go_error option"
  rr_Save :: "call list \<Rightarrow> go_context \<Rightarrow> Record \<Rightarrow> go_error option"
  rr_List ::
    "call list \<Rightarrow> go_context \<Rightarrow> RecordFilter \<Rightarrow> Record list option \<times> int \<times> go_error option"
  rr_BatchDelete :: "call list \<Rightarrow> go_context \<Rightarrow> string list \<Rightarrow> go_error option"

record CachedFieldRepository =
  cf_repo :: FieldRepository
  cf_cacheService :: CacheProvider
  cf_ttl :: int

record CachedRecordRepository =
  cr_repo :: RecordRepository
  cr_cacheService :: CacheProvider
  cr_ttl :: int

text \<open>A Go call either returns or panics.\<close>

datatype 'a outcome = Returns 'a | Panics string

subsection \<open>Durations and formatting\<close>

definition Second :: int where
  "Second = 1000000000"

definition Minute :: int where
  "Minute = 60 * Second"

text \<open>\<^verbatim>\<open>%d\<close> of \<^verbatim>\<open>fmt.Sprintf\<close>: the decimal digits, with a minus sign below zero.\<close>

definition digit_char :: "nat \<Rightarrow> char" where
  "digit_char d = ''0123456789'' ! d"

function decimal :: "nat \<Rightarrow> string" where
  "decimal n = (if n < 10 then [digit_char n] else decimal (n div 10) @ [digit_char (n mod 10)])"
  by pat_completeness auto
termination
  by (relation "measure id") auto

definition sprint_d :: "int \<Rightarrow> string" where
  "sprint_d i = (if i < 0 then CHR ''-'' # decimal (nat (- i)) else decimal (nat i))"

subsection \<open>CachedFieldRepository\<close>

definition NewCachedFieldRepository ::
  "FieldRepository \<Rightarrow> CacheProvider \<Rightarrow> int \<Rightarrow> CachedFieldRepository" where
  "NewCachedFieldRepository repo cacheService ttl =
     \<lparr>cf_repo = repo, cf_cacheService = cacheService,
      cf_ttl = (if ttl = 0 then 5 * Minute else ttl)\<rparr>"

definition field_buildCacheKey :: "string \<Rightarrow> string \<Rightarrow> string" where
  "field_buildCacheKey prefix ident = ''field:'' @ prefix @ '':'' @ ident"

text \<open>Every operation takes the calls made so far and returns its result with the
  calls extended.\<close>

definition CachedFieldRepository_FindByID ::
  "CachedFieldRepository \<Rightarrow> call list \<Rightarrow> go_context \<Rightarrow> string
     \<Rightarrow> (Field option \<times> go_error option) \<times> call list" where
  "CachedFieldRepository_FindByID r t ctx ident =
     (let cacheKey = field_buildCacheKey ''id'' ident;
          (cached, gerr) = cp_Get_Field (cf_cacheService r) t ctx cacheKey;
          t1 = t @ [Cache_Get cacheKey]
      in if gerr = None then ((cached, None), t1 @ [Logger Debug ''field cache hit''])
         else
           let (field, err) = fr_FindByID (cf_repo r) t1 ctx ident;
               t2 = t1 @ [FieldRepo_FindByID ident]
           in if err \<noteq> None then ((None, err), t2)
              else if field \<noteq> None then
                let serr = cp_Set (cf_cacheService r) t2 ctx cacheKey (CV_Field field) (cf_ttl r);
                    t3 = t2 @ [Cache_Set cacheKey (CV_Field field) (cf_ttl r)]
                in if serr \<noteq> None
                   then ((field, None), t3 @ [Logger Warn ''failed to cache field''])
                   else ((field, None), t3)
              else ((field, None), t2))"

definition CachedFieldRepository_FindByTableID ::
  "CachedFieldRepository \<Rightarrow> call list \<Rightarrow> go_context \<Rightarrow> string
     \<Rightarrow> (Field list option \<times> go_error option) \<times> call list" where
  "CachedFieldRepository_FindByTableID r t ctx tableID =
     (if InTransaction ctx then
        let t0 = t @ [Logger Info ''FindByTableID in transaction, cache disabled'']
        in (fr_FindByTableID (cf_repo r) t0 ctx tableID, t0 @ [FieldRepo_FindByTableID tableID])
      else
        let cacheKey = field_buildCacheKey ''table'' tableID;
            t0 = t @ [Logger Info ''FindByTableID start''];
            (cached, gerr) = cp_Get_Fields (cf_cacheService r) t0 ctx cacheKey;
            t1 = t0 @ [Cache_Get cacheKey]
        in if gerr = None then ((cached, None), t1 @ [Logger Info ''FindByTableID cache hit''])
           else
             let t1' = t1 @ [Logger Info ''FindByTableID cache miss''];
                 (fs, err) = fr_FindByTableID (cf_repo r) t1' ctx tableID;
                 t2 = t1' @ [FieldRepo_FindByTableID tableID]
             in if err \<noteq> None then ((None, err), t2)
                else
                  let t2' = t2 @ [Logger Info ''FindByTableID query done''];
                      serr = cp_Set (cf_cacheService r) t2' ctx cacheKey (CV_Fields fs) (cf_ttl r);
                      t3 = t2' @ [Cache_Set cacheKey (CV_Fields fs) (cf_ttl r)]
                  in if serr \<noteq> None
                     then ((fs, None), t3 @ [Logger Warn ''failed to cache fields''])
                     else ((fs, None), t3))"

text \<open>\<^verbatim>\<open>Save\<close> and \<^verbatim>\<open>invalidateCache\<close> call the accessors of the entity they are
  given, so the entity is there: the argument is a \<open>Field\<close>, not a pointer that may be nil.\<close>

definition field_invalidateCache ::
  "CachedFieldRepository \<Rightarrow> call list \<Rightarrow> go_context \<Rightarrow> Field \<Rightarrow> call list" where
  "field_invalidateCache r t ctx field =
     (let keys = [field_buildCacheKey ''id'' (field_ID field),
                  field_buildCacheKey ''table'' (field_TableID field)];
          derr = cp_Delete (cf_cacheService r) t ctx keys;
          t1 = t @ [Cache_Delete keys];
          t1' = (if derr \<noteq> None
                 then t1 @ [Logger Warn ''failed to invalidate field cache''] else t1);
          pattern = ''field:table:'' @ field_TableID field;
          perr = cp_InvalidatePattern (cf_cacheService r) t1' ctx pattern;
          t2 = t1' @ [Cache_InvalidatePattern pattern]
      in if perr \<noteq> None
         then t2 @ [Logger Warn ''failed to invalidate field pattern cache''] else t2)"

definition CachedFieldRepository_Save ::
  "CachedFieldRepository \<Rightarrow> call list \<Rightarrow> go_context \<Rightarrow> Field
     \<Rightarrow> go_error option \<times> call list" where
  "CachedFieldRepository_Save r t ctx field =
     (let err = fr_Save (cf_repo r) t ctx field;
          t1 = t @ [FieldRepo_Save field]
      in if err \<noteq> None then (err, t1)
         else (None, field_invalidateCache r t1 ctx field))"

definition CachedFieldRepository_BatchDelete ::
  "CachedFieldRepository \<Rightarrow> call list \<Rightarrow> go_context \<Rightarrow> string list
     \<Rightarrow> go_error option \<times> call list" where
  "CachedFieldRepository_BatchDelete r t ctx ids =
     (fr_BatchDelete (cf_repo r) t ctx ids, t @ [FieldRepo_BatchDelete ids])"

subsection \<open>CachedRecordRepository\<close>

definition NewCachedRecordRepository ::
  "RecordRepository \<Rightarrow> CacheProvider \<Rightarrow> int \<Rightarrow> CachedRecordRepository" where
  "NewCachedRecordRepository repo cacheService ttl =
     \<lparr>cr_repo = repo, cr_cacheService = cacheService,
      cr_ttl = (if ttl = 0 then 2 * Minute else ttl)\<rparr>"

definition record_buildCacheKey :: "string \<Rightarrow> string \<Rightarrow> string \<Rightarrow> string" where
  "record_buildCacheKey prefix tableID recordID =
     ''record:'' @ prefix @ '':'' @ tableID @ '':'' @ recordID"

definition CachedRecordRepository_FindByTableAndID ::
  "CachedRecordRepository \<Rightarrow> call list \<Rightarrow> go_context \<Rightarrow> string \<Rightarrow> string
     \<Rightarrow> (Record option \<times> go_error option) \<times> call list" where
  "CachedRecordRepository_FindByTableAndID r t ctx tableID ident =
     (let cacheKey = record_buildCacheKey ''id'' tableID ident;
          (cached, gerr) = cp_Get_Record (cr_cacheService r) t ctx cacheKey;
          t1 = t @ [Cache_Get cacheKey]
      in if gerr = None then ((cached, None), t1 @ [Logger Debug ''record cache hit''])
         else
           let (record, err) = rr_FindByTableAndID (cr_repo r) t1 ctx tableID ident;
               t2 = t1 @ [RecordRepo_FindByTableAndID tableID ident]
           in if err \<noteq> None then ((None, err), t2)
              else if record \<noteq> None then
                let serr = cp_Set (cr_cacheService r) t2 ctx cacheKey (CV_Record record) (cr_ttl r);
                    t3 = t2 @ [Cache_Set cacheKey (CV_Record record) (cr_ttl r)]
                in if serr \<noteq> None
                   then ((record, None), t3 @ [Logger Warn ''failed to cache record''])
                   else ((record, None), t3)
              else ((record, None), t2))"

definition CachedRecordRepository_Save ::
  "CachedRecordRepository \<Rightarrow> call list \<Rightarrow> go_context \<Rightarrow> Record
     \<Rightarrow> go_error option \<times> call list" where
  "CachedRecordRepository_Save r t ctx record =
     (let err = rr_Save (cr_repo r) t ctx record;
          t1 = t @ [RecordRepo_Save record]
      in if err \<noteq> None then (err, t1)
         else
           let cacheKey =
                 record_buildCacheKey ''id'' (record_TableID record) (record_ID record);
               derr = cp_Delete (cr_cacheService r) t1 ctx [cacheKey];
               t2 = t1 @ [Cache_Delete [cacheKey]];
               t2' = (if derr \<noteq> None
                      then t2 @ [Logger Warn ''failed to invalidate record cache'']
                      else t2);
               pattern = ''record:list:'' @ record_TableID record @ '':*'';
               perr = cp_InvalidatePattern (cr_cacheService r) t2' ctx pattern;
               t3 = t2' @ [Cache_InvalidatePattern pattern]
           in (None,
               if perr \<noteq> None
               then t3 @ [Logger Warn ''failed to invalidate record list cache'']
               else t3))"

definition record_list_cacheKey :: "string \<Rightarrow> int \<Rightarrow> int \<Rightarrow> string" where
  "record_list_cacheKey tableID limit offset =
     ''record:list:'' @ tableID @ '':'' @ sprint_d limit @ '':'' @ sprint_d offset"

definition CachedRecordRepository_List ::
  "CachedRecordRepository \<Rightarrow> call list \<Rightarrow> go_context \<Rightarrow> RecordFilter
     \<Rightarrow> (Record list option \<times> int \<times> go_error option) outcome \<times> call list" where
  "CachedRecordRepository_List r t ctx flt =
     (let shortTTL = (if cr_ttl r < 30 * Second then cr_ttl r else 30 * Second)
      in case filter_TableID flt of
           None \<Rightarrow> (Panics ''nil pointer dereference'', t)
         | Some tableID \<Rightarrow>
             let cacheKey = record_list_cacheKey tableID (filter_Limit flt) (filter_Offset flt);
                 ((cRecords, cTotal), gerr) = cp_Get_RecordList (cr_cacheService r) t ctx cacheKey;
                 t1 = t @ [Cache_Get cacheKey]
             in if gerr = None
                then (Returns (cRecords, cTotal, None),
                      t1 @ [Logger Debug ''record list cache hit''])
                else
                  let (records, count, err) = rr_List (cr_repo r) t1 ctx flt;
                      t2 = t1 @ [RecordRepo_List flt]
                  in if err \<noteq> None then (Returns (None, 0, err), t2)
                     else
                       let result = CV_RecordList records count;
                           serr = cp_Set (cr_cacheService r) t2 ctx cacheKey result shortTTL;
                           t3 = t2 @ [Cache_Set cacheKey result shortTTL]
                       in (Returns (records, count, None),
                           if serr \<noteq> None
                           then t3 @ [Logger Warn ''failed to cache record list'']
                           else t3))"

text \<open>The loop of \<^verbatim>\<open>BatchDelete\<close> over the ids, one pattern invalidation each.\<close>

fun record_BatchDelete_loop ::
  "CachedRecordRepository \<Rightarrow> call list \<Rightarrow> go_context \<Rightarrow> string list \<Rightarrow> call list" where
  "record_BatchDelete_loop r t ctx [] = t"
| "record_BatchDelete_loop r t ctx (ident # ids) =
     (let pattern = ''record:*:*:'' @ ident;
          perr = cp_InvalidatePattern (cr_cacheService r) t ctx pattern;
          t1 = t @ [Cache_InvalidatePattern pattern];
          t1' = (if perr \<noteq> None
                 then t1 @ [Logger Warn ''failed to invalidate record cache''] else t1)
      in record_BatchDelete_loop r t1' ctx ids)"

definition CachedRecordRepository_BatchDelete ::
  "CachedRecordRepository \<Rightarrow> call list \<Rightarrow> go_context \<Rightarrow> string list
     \<Rightarrow> go_error option \<times> call list" where
  "CachedRecordRepository_BatchDelete r t ctx ids =
     (let err = rr_BatchDelete (cr_repo r) t ctx ids;
          t1 = t @ [RecordRepo_BatchDelete ids]
      in if err \<noteq> None then (err, t1)
         else (None, record_BatchDelete_loop r t1 ctx ids))"

section \<open>Document subscription service (sharedbService.ts)\<close>

subsection \<open>JavaScript values\<close>

text \<open>The values of type \<^verbatim>\<open>any\<close>. Numbers are integers here, with \<^verbatim>\<open>NaN\<close> apart; an
  object is its list of properties.\<close>

datatype jsval =
    JUndefined
  | JNull
  | JBool bool
  | JNum int
  | JNaN
  | JStr string
  | JObj "(string \<times> jsval) list"
  | JArr "jsval list"

text \<open>What \<^verbatim>\<open>if (v)\<close> and \<^verbatim>\<open>v || d\<close> test.\<close>

fun js_truthy :: "jsval \<Rightarrow> bool" where
  "js_truthy JUndefined = False"
| "js_truthy JNull = False"
| "js_truthy (JBool b) = b"
| "js_truthy (JNum n) = (n \<noteq> 0)"
| "js_truthy JNaN = False"
| "js_truthy (JStr s) = (s \<noteq> [])"
| "js_truthy (JObj ps) = True"
| "js_truthy (JArr vs) = True"

definition js_or :: "jsval \<Rightarrow> jsval \<Rightarrow> jsval" where
  "js_or a b = (if js_truthy a then a else b)"

datatype js_error = JsError string

text \<open>A patch entry \<^verbatim>\<open>{ p, oi?, od? }\<close>: \<open>None\<close> is a key the object literal does not
  have.\<close>

record ShareDBOperation =
  op_p :: "string list"
  op_oi :: "jsval option"
  op_od :: "jsval option"

record ShareDBDocEvent =
  ev_op :: "ShareDBOperation list"
  ev_source :: bool
  ev_data :: jsval

subsection \<open>Listeners, handles and the service's state\<close>

text \<open>
  A listener is a callback, known by its identity; calling it is recorded. A document
  handle is known by its identity too. The closures \<^verbatim>\<open>subscribeRecord\<close> attaches to a
  handle capture \<^verbatim>\<open>onUpdate\<close>, and \<^verbatim>\<open>handleError\<close> also \<^verbatim>\<open>recordId\<close> and \<^verbatim>\<open>doc\<close>.
\<close>

type_synonym listener = nat
type_synonym handle = nat

datatype adapter =
    handleLoad listener
  | handleOp listener
  | handleError string handle listener

datatype doc_event = Load jsval | Op ShareDBDocEvent | Error js_error

text \<open>
  Modelled from the spec: the handle of the document sync primitive (\<^verbatim>\<open>luckdb-sdk\<close>; its
  implementation is not among the sources). It ``emits load/operation/error events and
  exposes \<^verbatim>\<open>subscribe()\<close>, \<^verbatim>\<open>submitOp(operation)\<close>, \<^verbatim>\<open>destroy()\<close>, and a \<^verbatim>\<open>data\<close> snapshot
  accessor'': a handle has its data, the callbacks registered with \<^verbatim>\<open>on\<close> in
  registration order, and whether it is subscribed or destroyed.
\<close>

record Doc =
  doc_data :: jsval
  doc_handlers :: "(string \<times> adapter) list"
  doc_subscribed :: bool
  doc_destroyed :: bool

text \<open>
  The fields of \<^verbatim>\<open>ShareDBService\<close> (\<open>tableId\<close>, \<open>subscribedDocs\<close>, \<open>eventHandlers\<close>), the
  client \<^verbatim>\<open>luckdbClient.sharedb\<close> (\<open>isConnected\<close>, \<open>getDocument\<close> and the handles it has
  given out), and what the service did to the outside: the calls of listeners, of
  \<^verbatim>\<open>console.error\<close> and of \<^verbatim>\<open>doc.submitOp\<close>, each in order. The client is not among the
  sources: \<open>getDocument\<close> is a parameter, a function of the collection and the record id
  as in the spec's \<^verbatim>\<open>getDocument(collectionKey, recordId) -> handle\<close>.
\<close>

record world =
  tableId :: "string option"
  subscribedDocs :: "string \<rightharpoonup> handle"
  eventHandlers :: "string \<rightharpoonup> listener set"
  isConnected :: bool
  getDocument :: "string \<Rightarrow> string \<Rightarrow> handle"
  docs :: "handle \<Rightarrow> Doc"
  delivered :: "(listener \<times> ShareDBDocEvent) list"
  console_error :: "string list"
  submitted :: "(handle \<times> ShareDBOperation list) list"

definition call_listener :: "world \<Rightarrow> listener \<Rightarrow> ShareDBDocEvent \<Rightarrow> world" where
  "call_listener w onUpdate ev = w\<lparr>delivered := delivered w @ [(onUpdate, ev)]\<rparr>"

definition doc_on :: "world \<Rightarrow> handle \<Rightarrow> string \<Rightarrow> adapter \<Rightarrow> world" where
  "doc_on w doc name f =
     w\<lparr>docs := (docs w)(doc := (docs w doc)\<lparr>doc_handlers := doc_handlers (docs w doc) @ [(name, f)]\<rparr>)\<rparr>"

definition doc_destroy :: "world \<Rightarrow> handle \<Rightarrow> world" where
  "doc_destroy w doc =
     w\<lparr>docs := (docs w)(doc := (docs w doc)\<lparr>doc_subscribed := False, doc_destroyed := True\<rparr>)\<rparr>"

text \<open>The three closures of \<^verbatim>\<open>subscribeRecord\<close>. Each is registered under its own event
  name, so the last equation is never reached from a handle the service set up.\<close>

fun run_adapter :: "world \<Rightarrow> adapter \<Rightarrow> doc_event \<Rightarrow> world" where
  "run_adapter w (handleLoad onUpdate) (Load d) =
     call_listener w onUpdate \<lparr>ev_op = [], ev_source = False, ev_data = d\<rparr>"
| "run_adapter w (handleOp onUpdate) (Op event) = call_listener w onUpdate event"
| "run_adapter w (handleError recordId doc onUpdate) (Error err) =
     (let w1 = w\<lparr>console_error := console_error w
                   @ [''ShareDB document error for record '' @ recordId @ '':'']\<rparr>
      in call_listener w1 onUpdate
           \<lparr>ev_op = [], ev_source = False, ev_data = js_or (doc_data (docs w1 doc)) (JObj [])\<rparr>)"
| "run_adapter w _ _ = w"

fun event_name :: "doc_event \<Rightarrow> string" where
  "event_name (Load d) = ''load''"
| "event_name (Op event) = ''op''"
| "event_name (Error err) = ''error''"

text \<open>A handle that emits an event calls the callbacks registered under the event's
  name, in registration order.\<close>

definition emit :: "world \<Rightarrow> handle \<Rightarrow> doc_event \<Rightarrow> world" where
  "emit w doc e =
     foldl (\<lambda>w' f. run_adapter w' f e) w
       (map snd (filter (\<lambda>nf. fst nf = event_name e) (doc_handlers (docs w doc))))"

text \<open>What the transport may do to a handle while the service waits or is idle: store a
  new snapshot, or make the handle emit an event.\<close>

datatype transport_step = SetData handle jsval | Emit handle doc_event

fun transport :: "world \<Rightarrow> transport_step \<Rightarrow> world" where
  "transport w (SetData doc d) = w\<lparr>docs := (docs w)(doc := (docs w doc)\<lparr>doc_data := d\<rparr>)\<rparr>"
| "transport w (Emit doc e) = emit w doc e"

text \<open>The promise of \<^verbatim>\<open>doc.subscribe()\<close> settles: \<open>None\<close> resolves it, \<open>Some err\<close> rejects
  it.\<close>

definition doc_subscribe_settled :: "world \<Rightarrow> handle \<Rightarrow> js_error option \<Rightarrow> world" where
  "doc_subscribe_settled w doc settled =
     (case settled of
        None \<Rightarrow> w\<lparr>docs := (docs w)(doc := (docs w doc)\<lparr>doc_subscribed := True\<rparr>)\<rparr>
      | Some err \<Rightarrow> w)"

subsection \<open>ShareDBService\<close>

definition getCollectionName :: "world \<Rightarrow> js_error + string" where
  "getCollectionName w =
     (case tableId w of
        None \<Rightarrow> Inl (JsError ''Table ID is not set. Call setTableId() first.'')
      | Some tid \<Rightarrow>
          if tid = [] then Inl (JsError ''Table ID is not set. Call setTableId() first.'')
          else Inr (''rec_'' @ tid))"

text \<open>\<^verbatim>\<open>subscribeRecord\<close> up to its \<^verbatim>\<open>await\<close>: the checks, the handle, the listener set
  and the three closures.\<close>

definition subscribeRecord_begin ::
  "world \<Rightarrow> string \<Rightarrow> listener \<Rightarrow> js_error + (handle \<times> world)" where
  "subscribeRecord_begin w recordId onUpdate =
     (if \<not> isConnected w then Inl (JsError ''ShareDB is not connected. Call connect() first.'')
      else case getCollectionName w of
             Inl err \<Rightarrow> Inl err
           | Inr collection \<Rightarrow>
               let doc = getDocument w collection recordId;
                   hs = (case eventHandlers w recordId of None \<Rightarrow> {} | Some s \<Rightarrow> s);
                   w1 = w\<lparr>eventHandlers := (eventHandlers w)(recordId \<mapsto> insert onUpdate hs)\<rparr>;
                   w2 = doc_on w1 doc ''load'' (handleLoad onUpdate);
                   w3 = doc_on w2 doc ''op'' (handleOp onUpdate);
                   w4 = doc_on w3 doc ''error'' (handleError recordId doc onUpdate)
               in Inr (doc, w4))"

text \<open>\<^verbatim>\<open>subscribeRecord\<close> after its \<^verbatim>\<open>await\<close> has resolved.\<close>

definition subscribeRecord_resume :: "world \<Rightarrow> string \<Rightarrow> handle \<Rightarrow> listener \<Rightarrow> world" where
  "subscribeRecord_resume w recordId doc onUpdate =
     (let w1 = w\<lparr>subscribedDocs := (subscribedDocs w)(recordId \<mapsto> doc)\<rparr>
      in if js_truthy (doc_data (docs w1 doc))
         then call_listener w1 onUpdate
                \<lparr>ev_op = [], ev_source = False, ev_data = doc_data (docs w1 doc)\<rparr>
         else w1)"

text \<open>
  The whole call. \<open>during\<close> is what the transport does while the call waits, \<open>settled\<close>
  how the promise of \<^verbatim>\<open>doc.subscribe()\<close> settles. The result is the error the call throws
  (\<open>None\<close> when it returns), with the world it leaves.
\<close>

definition subscribeRecord ::
  "world \<Rightarrow> string \<Rightarrow> listener \<Rightarrow> transport_step list \<Rightarrow> js_error option
     \<Rightarrow> js_error option \<times> world" where
  "subscribeRecord w recordId onUpdate during settled =
     (case subscribeRecord_begin w recordId onUpdate of
        Inl err \<Rightarrow> (Some err, w)
      | Inr (doc, w1) \<Rightarrow>
          let w2 = doc_subscribe_settled (foldl transport w1 during) doc settled
          in case settled of
               Some err \<Rightarrow> (Some err, w2)
             | None \<Rightarrow> (None, subscribeRecord_resume w2 recordId doc onUpdate))"

definition unsubscribeRecord :: "world \<Rightarrow> string \<Rightarrow> world" where
  "unsubscribeRecord w recordId =
     (let w1 = (case subscribedDocs w recordId of
                  None \<Rightarrow> w
                | Some doc \<Rightarrow>
                    (doc_destroy w doc)\<lparr>subscribedDocs := (subscribedDocs w)(recordId := None)\<rparr>)
      in w1\<lparr>eventHandlers := (eventHandlers w1)(recordId := None)\<rparr>)"

text \<open>The operation list \<^verbatim>\<open>submitFieldUpdate\<close> builds (the spec's \<^verbatim>\<open>buildFieldUpdate\<close>).
  An omitted \<^verbatim>\<open>oldValue\<close> is \<^verbatim>\<open>undefined\<close>.\<close>

definition submitFieldUpdate_op :: "string \<Rightarrow> jsval \<Rightarrow> jsval \<Rightarrow> ShareDBOperation list" where
  "submitFieldUpdate_op fieldId newValue oldValue =
     (if newValue = JUndefined \<or> newValue = JNull then
        (if oldValue \<noteq> JUndefined
         then [\<lparr>op_p = [''data'', fieldId], op_oi = None, op_od = Some oldValue\<rparr>]
         else [])
      else
        (if oldValue \<noteq> JUndefined
         then [\<lparr>op_p = [''data'', fieldId], op_oi = Some newValue, op_od = Some oldValue\<rparr>]
         else [\<lparr>op_p = [''data'', fieldId], op_oi = Some newValue, op_od = None\<rparr>]))"

text \<open>\<open>settled\<close> is how the promise of \<^verbatim>\<open>doc.submitOp(op)\<close> settles, when it is called.\<close>

definition submitFieldUpdate ::
  "world \<Rightarrow> string \<Rightarrow> string \<Rightarrow> jsval \<Rightarrow> jsval \<Rightarrow> js_error option
     \<Rightarrow> js_error option \<times> world" where
  "submitFieldUpdate w recordId fieldId newValue oldValue settled =
     (case subscribedDocs w recordId of
        None \<Rightarrow>
          (Some (JsError (''Document for record '' @ recordId @ '' is not subscribed.'')), w)
      | Some doc \<Rightarrow>
          let op = submitFieldUpdate_op fieldId newValue oldValue
          in if length op > 0
             then (settled, w\<lparr>submitted := submitted w @ [(doc, op)]\<rparr>)
             else (None, w))"

section \<open>Observations and example collaborators\<close>

subsection \<open>Reading the recorded calls\<close>

text \<open>The calls an operation added, those among them that left the process (to the cache
  provider or the wrapped repository), and those that went to the logger.\<close>

definition new_calls :: "call list \<Rightarrow> call list \<Rightarrow> call list" where
  "new_calls t t' = drop (length t) t'"

fun is_logger :: "call \<Rightarrow> bool" where
  "is_logger (Logger lvl msg) = True"
| "is_logger c = False"

definition external_calls :: "call list \<Rightarrow> call list \<Rightarrow> call list" where
  "external_calls t t' = filter (\<lambda>c. \<not> is_logger c) (new_calls t t')"

definition logged :: "call list \<Rightarrow> call list \<Rightarrow> call list" where
  "logged t t' = filter is_logger (new_calls t t')"

subsection \<open>Reading the service's state\<close>

text \<open>The listeners registered for a record, the listener calls made between two states,
  and the three closures \<^verbatim>\<open>subscribeRecord\<close> attaches for one listener.\<close>

definition registered_listeners :: "world \<Rightarrow> string \<Rightarrow> listener set" where
  "registered_listeners w recordId =
     (case eventHandlers w recordId of None \<Rightarrow> {} | Some s \<Rightarrow> s)"

definition new_deliveries :: "world \<Rightarrow> world \<Rightarrow> (listener \<times> ShareDBDocEvent) list" where
  "new_deliveries w w' = drop (length (delivered w)) (delivered w')"

definition snapshot_event :: "jsval \<Rightarrow> ShareDBDocEvent" where
  "snapshot_event d = \<lparr>ev_op = [], ev_source = False, ev_data = d\<rparr>"

text \<open>What a listener attached by \<^verbatim>\<open>subscribeRecord\<close> is given when its handle, holding
  data \<open>d\<close>, emits an event.\<close>

fun listener_event :: "jsval \<Rightarrow> doc_event \<Rightarrow> ShareDBDocEvent" where
  "listener_event d (Load d') = snapshot_event d'"
| "listener_event d (Op event) = event"
| "listener_event d (Error err) = snapshot_event (if js_truthy d then d else JObj [])"

definition adapters :: "string \<Rightarrow> handle \<Rightarrow> listener \<Rightarrow> (string \<times> adapter) list" where
  "adapters recordId doc onUpdate =
     [(''load'', handleLoad onUpdate), (''op'', handleOp onUpdate),
      (''error'', handleError recordId doc onUpdate)]"

text \<open>Every callback on every handle was attached by a call of \<^verbatim>\<open>subscribeRecord\<close>: the
  callbacks of a handle are the three closures of each such call, in call order.\<close>

definition service_callbacks :: "world \<Rightarrow> bool" where
  "service_callbacks w \<longleftrightarrow>
     (\<forall>h. \<exists>calls. doc_handlers (docs w h) =
                      concat (map (\<lambda>c. adapters (fst c) h (snd c)) calls))"

text \<open>What the transport and the listeners leave alone.\<close>

definition same_registry :: "world \<Rightarrow> world \<Rightarrow> bool" where
  "same_registry w w' \<longleftrightarrow>
     tableId w' = tableId w \<and> subscribedDocs w' = subscribedDocs w
   \<and> eventHandlers w' = eventHandlers w \<and> isConnected w' = isConnected w
   \<and> getDocument w' = getDocument w \<and> submitted w' = submitted w
   \<and> (\<forall>h. doc_handlers (docs w' h) = doc_handlers (docs w h)
          \<and> doc_subscribed (docs w' h) = doc_subscribed (docs w h)
          \<and> doc_destroyed (docs w' h) = doc_destroyed (docs w h))"

subsection \<open>Example collaborators\<close>

definition example_field :: Field where
  "example_field = \<lparr>field_ID = ''fld1'', field_TableID = ''tbl1'', field_attrs = ''name=Title''\<rparr>"

definition stale_field :: Field where
  "stale_field = \<lparr>field_ID = ''fld1'', field_TableID = ''tbl1'', field_attrs = ''name=Old title''\<rparr>"

definition example_record :: Record where
  "example_record = \<lparr>record_ID = ''rec1'', record_TableID = ''tbl1'', record_attrs = ''a=2''\<rparr>"

definition stale_record :: Record where
  "stale_record = \<lparr>record_ID = ''rec1'', record_TableID = ''tbl1'', record_attrs = ''a=1''\<rparr>"

text \<open>A cache that holds an earlier version of every entity, a cache that holds nothing,
  and a cache whose every operation fails.\<close>

definition warm_cache :: CacheProvider where
  "warm_cache =
     \<lparr>cp_Get_Field = (\<lambda>t ctx key. (Some stale_field, None)),
      cp_Get_Fields = (\<lambda>t ctx key. (Some [stale_field], None)),
      cp_Get_Record = (\<lambda>t ctx key. (Some stale_record, None)),
      cp_Get_RecordList = (\<lambda>t ctx key. ((Some [stale_record], 1), None)),
      cp_Set = (\<lambda>t ctx key v ttl. None),
      cp_Delete = (\<lambda>t ctx keys. None),
      cp_InvalidatePattern = (\<lambda>t ctx pattern. None)\<rparr>"

definition cold_cache :: CacheProvider where
  "cold_cache =
     \<lparr>cp_Get_Field = (\<lambda>t ctx key. (None, Some (GoError ''cache miss''))),
      cp_Get_Fields = (\<lambda>t ctx key. (None, Some (GoError ''cache miss''))),
      cp_Get_Record = (\<lambda>t ctx key. (None, Some (GoError ''cache miss''))),
      cp_Get_RecordList = (\<lambda>t ctx key. ((None, 0), Some (GoError ''cache miss''))),
      cp_Set = (\<lambda>t ctx key v ttl. None),
      cp_Delete = (\<lambda>t ctx keys. None),
      cp_InvalidatePattern = (\<lambda>t ctx pattern. None)\<rparr>"

definition broken_cache :: CacheProvider where
  "broken_cache =
     \<lparr>cp_Get_Field = (\<lambda>t ctx key. (None, Some (GoError ''connection refused''))),
      cp_Get_Fields = (\<lambda>t ctx key. (None, Some (GoError ''connection refused''))),
      cp_Get_Record = (\<lambda>t ctx key. (None, Some (GoError ''connection refused''))),
      cp_Get_RecordList = (\<lambda>t ctx key. ((None, 0), Some (GoError ''connection refused''))),
      cp_Set = (\<lambda>t ctx key v ttl. Some (GoError ''connection refused'')),
      cp_Delete = (\<lambda>t ctx keys. Some (GoError ''connection refused'')),
      cp_InvalidatePattern = (\<lambda>t ctx pattern. Some (GoError ''connection refused''))\<rparr>"

text \<open>Authoritative repositories that hold the current version of the example entities,
  and ones whose every operation fails.\<close>

definition example_field_repo :: FieldRepository where
  "example_field_repo =
     \<lparr>fr_FindByID = (\<lambda>t ctx ident. (Some example_field, None)),
      fr_FindByTableID = (\<lambda>t ctx tableID. (Some [example_field], None)),
      fr_Save = (\<lambda>t ctx field. None),
      fr_BatchDelete = (\<lambda>t ctx ids. None)\<rparr>"

definition failing_field_repo :: FieldRepository where
  "failing_field_repo =
     \<lparr>fr_FindByID = (\<lambda>t ctx ident. (None, Some (GoError ''database is down''))),
      fr_FindByTableID = (\<lambda>t ctx tableID. (None, Some (GoError ''database is down''))),
      fr_Save = (\<lambda>t ctx field. Some (GoError ''database is down'')),
      fr_BatchDelete = (\<lambda>t ctx ids. Some (GoError ''database is down''))\<rparr>"

definition example_record_repo :: RecordRepository where
  "example_record_repo =
     \<lparr>rr_FindByTableAndID = (\<lambda>t ctx tableID ident. (Some example_record, None)),
      rr_Save = (\<lambda>t ctx rcd. None),
      rr_List = (\<lambda>t ctx flt. (Some [example_record], 1, None)),
      rr_BatchDelete = (\<lambda>t ctx ids. None)\<rparr>"

definition failing_record_repo :: RecordRepository where
  "failing_record_repo =
     \<lparr>rr_FindByTableAndID = (\<lambda>t ctx tableID ident. (None, Some (GoError ''database is down''))),
      rr_Save = (\<lambda>t ctx rcd. Some (GoError ''database is down'')),
      rr_List = (\<lambda>t ctx flt. (None, 0, Some (GoError ''database is down''))),
      rr_BatchDelete = (\<lambda>t ctx ids. Some (GoError ''database is down''))\<rparr>"

text \<open>A connected service with table \<^verbatim>\<open>tbl1\<close> and no subscription yet; the client hands
  out handle 1 for record \<^verbatim>\<open>rec1\<close>.\<close>

definition fresh_doc :: Doc where
  "fresh_doc =
     \<lparr>doc_data = JUndefined, doc_handlers = [], doc_subscribed = False, doc_destroyed = False\<rparr>"

definition example_world :: world where
  "example_world =
     \<lparr>tableId = Some ''tbl1'', subscribedDocs = Map.empty, eventHandlers = Map.empty,
      isConnected = True,
      getDocument = (\<lambda>collection recordId. if recordId = ''rec1'' then 1 else 2),
      docs = (\<lambda>h. fresh_doc), delivered = [], console_error = [], submitted = []\<rparr>"

definition example_snapshot :: jsval where
  "example_snapshot = JObj [(''data'', JObj [(''fld1'', JNum 5)])]"

definition subscribed_world :: world where
  "subscribed_world = example_world\<lparr>subscribedDocs := [''rec1'' \<mapsto> 1]\<rparr>"

definition retried_world :: world where
  "retried_world =
     snd (subscribeRecord
            (snd (subscribeRecord example_world ''rec1'' 7 [] (Some (JsError ''subscribe rejected''))))
            ''rec1'' 7 [] None)"

section \<open>Properties of the cache-consistent repositories\<close>

declare decimal.simps [simp del]

lemmas obs_defs = new_calls_def external_calls_def logged_def

lemmas example_defs =
  example_field_def stale_field_def example_record_def stale_record_def
  warm_cache_def cold_cache_def broken_cache_def
  example_field_repo_def failing_field_repo_def example_record_repo_def failing_record_repo_def

subsection \<open>The calls of each operation\<close>

text \<open>Each lemma names the answers of the collaborators at the moment they are asked and
  gives the result and the recorded calls of the whole operation.\<close>

lemma FindByID_calls:
  assumes "cp_Get_Field (cf_cacheService r) t ctx (field_buildCacheKey ''id'' fid) = (cached, gerr)"
    and "fr_FindByID (cf_repo r) (t @ [Cache_Get (field_buildCacheKey ''id'' fid)]) ctx fid = (field, err)"
    and "cp_Set (cf_cacheService r)
           (t @ [Cache_Get (field_buildCacheKey ''id'' fid), FieldRepo_FindByID fid]) ctx
           (field_buildCacheKey ''id'' fid) (CV_Field field) (cf_ttl r) = serr"
  shows "CachedFieldRepository_FindByID r t ctx fid =
          (if gerr = None
           then ((cached, None), t @ [Cache_Get (''field:id:'' @ fid), Logger Debug ''field cache hit''])
           else if err \<noteq> None
           then ((None, err), t @ [Cache_Get (''field:id:'' @ fid), FieldRepo_FindByID fid])
           else if field = None
           then ((None, None), t @ [Cache_Get (''field:id:'' @ fid), FieldRepo_FindByID fid])
           else ((field, None),
                 t @ [Cache_Get (''field:id:'' @ fid), FieldRepo_FindByID fid,
                      Cache_Set (''field:id:'' @ fid) (CV_Field field) (cf_ttl r)]
                   @ (if serr \<noteq> None then [Logger Warn ''failed to cache field''] else [])))"
  using assms
  by (auto simp: CachedFieldRepository_FindByID_def field_buildCacheKey_def Let_def)

lemma FindByTableAndID_calls:
  assumes "cp_Get_Record (cr_cacheService r) t ctx (record_buildCacheKey ''id'' tid rid) = (cached, gerr)"
    and "rr_FindByTableAndID (cr_repo r) (t @ [Cache_Get (record_buildCacheKey ''id'' tid rid)]) ctx tid rid
           = (rcd, err)"
    and "cp_Set (cr_cacheService r)
           (t @ [Cache_Get (record_buildCacheKey ''id'' tid rid), RecordRepo_FindByTableAndID tid rid]) ctx
           (record_buildCacheKey ''id'' tid rid) (CV_Record rcd) (cr_ttl r) = serr"
  shows "CachedRecordRepository_FindByTableAndID r t ctx tid rid =
          (if gerr = None
           then ((cached, None),
                 t @ [Cache_Get (''record:id:'' @ tid @ '':'' @ rid), Logger Debug ''record cache hit''])
           else if err \<noteq> None
           then ((None, err),
                 t @ [Cache_Get (''record:id:'' @ tid @ '':'' @ rid), RecordRepo_FindByTableAndID tid rid])
           else if rcd = None
           then ((None, None),
                 t @ [Cache_Get (''record:id:'' @ tid @ '':'' @ rid), RecordRepo_FindByTableAndID tid rid])
           else ((rcd, None),
                 t @ [Cache_Get (''record:id:'' @ tid @ '':'' @ rid), RecordRepo_FindByTableAndID tid rid,
                      Cache_Set (''record:id:'' @ tid @ '':'' @ rid) (CV_Record rcd) (cr_ttl r)]
                   @ (if serr \<noteq> None then [Logger Warn ''failed to cache record''] else [])))"
  using assms
  by (auto simp: CachedRecordRepository_FindByTableAndID_def record_buildCacheKey_def Let_def)

lemma FindByTableID_calls:
  assumes "\<not> InTransaction ctx"
    and "cp_Get_Fields (cf_cacheService r) (t @ [Logger Info ''FindByTableID start'']) ctx
           (field_buildCacheKey ''table'' tid) = (cached, gerr)"
    and "fr_FindByTableID (cf_repo r)
           (t @ [Logger Info ''FindByTableID start'', Cache_Get (field_buildCacheKey ''table'' tid),
                 Logger Info ''FindByTableID cache miss'']) ctx tid = (fs, err)"
    and "cp_Set (cf_cacheService r)
           (t @ [Logger Info ''FindByTableID start'', Cache_Get (field_buildCacheKey ''table'' tid),
                 Logger Info ''FindByTableID cache miss'', FieldRepo_FindByTableID tid,
                 Logger Info ''FindByTableID query done'']) ctx
           (field_buildCacheKey ''table'' tid) (CV_Fields fs) (cf_ttl r) = serr"
  shows "CachedFieldRepository_FindByTableID r t ctx tid =
          (if gerr = None
           then ((cached, None),
                 t @ [Logger Info ''FindByTableID start'', Cache_Get (''field:table:'' @ tid),
                      Logger Info ''FindByTableID cache hit''])
           else if err \<noteq> None
           then ((None, err),
                 t @ [Logger Info ''FindByTableID start'', Cache_Get (''field:table:'' @ tid),
                      Logger Info ''FindByTableID cache miss'', FieldRepo_FindByTableID tid])
           else ((fs, None),
                 t @ [Logger Info ''FindByTableID start'', Cache_Get (''field:table:'' @ tid),
                      Logger Info ''FindByTableID cache miss'', FieldRepo_FindByTableID tid,
                      Logger Info ''FindByTableID query done'',
                      Cache_Set (''field:table:'' @ tid) (CV_Fields fs) (cf_ttl r)]
                   @ (if serr \<noteq> None then [Logger Warn ''failed to cache fields''] else [])))"
  using assms
  by (auto simp: CachedFieldRepository_FindByTableID_def field_buildCacheKey_def Let_def)

lemma List_calls:
  assumes "filter_TableID flt = Some tid"
    and "cp_Get_RecordList (cr_cacheService r) t ctx
           (record_list_cacheKey tid (filter_Limit flt) (filter_Offset flt)) = ((cRecords, cTotal), gerr)"
    and "rr_List (cr_repo r)
           (t @ [Cache_Get (record_list_cacheKey tid (filter_Limit flt) (filter_Offset flt))]) ctx flt
           = (records, count, err)"
    and "cp_Set (cr_cacheService r)
           (t @ [Cache_Get (record_list_cacheKey tid (filter_Limit flt) (filter_Offset flt)),
                 RecordRepo_List flt]) ctx
           (record_list_cacheKey tid (filter_Limit flt) (filter_Offset flt))
           (CV_RecordList records count) (if cr_ttl r < 30 * Second then cr_ttl r else 30 * Second)
           = serr"
  shows "CachedRecordRepository_List r t ctx flt =
          (if gerr = None
           then (Returns (cRecords, cTotal, None),
                 t @ [Cache_Get (record_list_cacheKey tid (filter_Limit flt) (filter_Offset flt)),
                      Logger Debug ''record list cache hit''])
           else if err \<noteq> None
           then (Returns (None, 0, err),
                 t @ [Cache_Get (record_list_cacheKey tid (filter_Limit flt) (filter_Offset flt)),
                      RecordRepo_List flt])
           else (Returns (records, count, None),
                 t @ [Cache_Get (record_list_cacheKey tid (filter_Limit flt) (filter_Offset flt)),
                      RecordRepo_List flt,
                      Cache_Set (record_list_cacheKey tid (filter_Limit flt) (filter_Offset flt))
                        (CV_RecordList records count)
                        (if cr_ttl r < 30 * Second then cr_ttl r else 30 * Second)]
                   @ (if serr \<noteq> None then [Logger Warn ''failed to cache record list''] else [])))"
  using assms
  by (auto simp: CachedRecordRepository_List_def Let_def)

lemma record_Save_calls:
  assumes "rr_Save (cr_repo r) t ctx rcd = err"
    and "cp_Delete (cr_cacheService r) (t @ [RecordRepo_Save rcd]) ctx
           [record_buildCacheKey ''id'' (record_TableID rcd) (record_ID rcd)] = derr"
    and "cp_InvalidatePattern (cr_cacheService r)
           (t @ [RecordRepo_Save rcd,
                 Cache_Delete [record_buildCacheKey ''id'' (record_TableID rcd) (record_ID rcd)]]
              @ (if derr \<noteq> None then [Logger Warn ''failed to invalidate record cache''] else []))
           ctx (''record:list:'' @ record_TableID rcd @ '':*'') = perr"
  shows "CachedRecordRepository_Save r t ctx rcd =
          (if err \<noteq> None then (err, t @ [RecordRepo_Save rcd])
           else (None,
                 t @ [RecordRepo_Save rcd,
                      Cache_Delete [''record:id:'' @ record_TableID rcd @ '':'' @ record_ID rcd]]
                   @ (if derr \<noteq> None then [Logger Warn ''failed to invalidate record cache''] else [])
                   @ [Cache_InvalidatePattern (''record:list:'' @ record_TableID rcd @ '':*'')]
                   @ (if perr \<noteq> None
                      then [Logger Warn ''failed to invalidate record list cache''] else [])))"
  using assms
  by (auto simp: CachedRecordRepository_Save_def record_buildCacheKey_def Let_def)

lemma field_Save_calls:
  assumes "fr_Save (cf_repo r) t ctx field = err"
    and "cp_Delete (cf_cacheService r) (t @ [FieldRepo_Save field]) ctx
           [field_buildCacheKey ''id'' (field_ID field),
            field_buildCacheKey ''table'' (field_TableID field)] = derr"
    and "cp_InvalidatePattern (cf_cacheService r)
           (t @ [FieldRepo_Save field,
                 Cache_Delete [field_buildCacheKey ''id'' (field_ID field),
                               field_buildCacheKey ''table'' (field_TableID field)]]
              @ (if derr \<noteq> None then [Logger Warn ''failed to invalidate field cache''] else []))
           ctx (''field:table:'' @ field_TableID field) = perr"
  shows "CachedFieldRepository_Save r t ctx field =
          (if err \<noteq> None then (err, t @ [FieldRepo_Save field])
           else (None,
                 t @ [FieldRepo_Save field,
                      Cache_Delete [''field:id:'' @ field_ID field,
                                    ''field:table:'' @ field_TableID field]]
                   @ (if derr \<noteq> None then [Logger Warn ''failed to invalidate field cache''] else [])
                   @ [Cache_InvalidatePattern (''field:table:'' @ field_TableID field)]
                   @ (if perr \<noteq> None
                      then [Logger Warn ''failed to invalidate field pattern cache''] else [])))"
  using assms
  by (auto simp: CachedFieldRepository_Save_def field_invalidateCache_def field_buildCacheKey_def
                 Let_def)

subsection \<open>Point reads\<close>

text \<open>
  C5. For every point read (\<^verbatim>\<open>CachedFieldRepository.FindByID\<close>,
  \<^verbatim>\<open>CachedRecordRepository.FindByTableAndID\<close>): when the cache \<^verbatim>\<open>Get\<close> returns no error
  (a hit) the cached value is returned and the only call made is that \<^verbatim>\<open>Get\<close>, so the
  authoritative store is not called; when it returns an error (a miss) exactly one call
  goes to the authoritative store, and the cache is populated, with the wrapper's
  configured TTL and after that call, only when the store returned no error and a non-nil
  entity.
\<close>

theorem point_read_cache_aside:
  assumes fg: "cp_Get_Field (cf_cacheService fr) t ctx (field_buildCacheKey ''id'' fid) = (fcached, fgerr)"
    and ff: "fr_FindByID (cf_repo fr) (t @ [Cache_Get (field_buildCacheKey ''id'' fid)]) ctx fid
               = (field, ferr)"
    and rg: "cp_Get_Record (cr_cacheService rr) t ctx (record_buildCacheKey ''id'' tid rid)
               = (rcached, rgerr)"
    and rf: "rr_FindByTableAndID (cr_repo rr)
               (t @ [Cache_Get (record_buildCacheKey ''id'' tid rid)]) ctx tid rid = (rcd, rerr)"
  shows "(fgerr = None \<longrightarrow>
            fst (CachedFieldRepository_FindByID fr t ctx fid) = (fcached, None)
          \<and> external_calls t (snd (CachedFieldRepository_FindByID fr t ctx fid)) =
              [Cache_Get (''field:id:'' @ fid)])
       \<and> (fgerr \<noteq> None \<longrightarrow>
            fst (CachedFieldRepository_FindByID fr t ctx fid) =
              (if ferr = None then (field, None) else (None, ferr))
          \<and> external_calls t (snd (CachedFieldRepository_FindByID fr t ctx fid)) =
              [Cache_Get (''field:id:'' @ fid), FieldRepo_FindByID fid]
              @ (if ferr = None \<and> field \<noteq> None
                 then [Cache_Set (''field:id:'' @ fid) (CV_Field field) (cf_ttl fr)] else []))
       \<and> (rgerr = None \<longrightarrow>
            fst (CachedRecordRepository_FindByTableAndID rr t ctx tid rid) = (rcached, None)
          \<and> external_calls t (snd (CachedRecordRepository_FindByTableAndID rr t ctx tid rid)) =
              [Cache_Get (''record:id:'' @ tid @ '':'' @ rid)])
       \<and> (rgerr \<noteq> None \<longrightarrow>
            fst (CachedRecordRepository_FindByTableAndID rr t ctx tid rid) =
              (if rerr = None then (rcd, None) else (None, rerr))
          \<and> external_calls t (snd (CachedRecordRepository_FindByTableAndID rr t ctx tid rid)) =
              [Cache_Get (''record:id:'' @ tid @ '':'' @ rid), RecordRepo_FindByTableAndID tid rid]
              @ (if rerr = None \<and> rcd \<noteq> None
                 then [Cache_Set (''record:id:'' @ tid @ '':'' @ rid) (CV_Record rcd) (cr_ttl rr)]
                 else []))"
proof -
  note f = FindByID_calls [OF fg ff refl]
  note r = FindByTableAndID_calls [OF rg rf refl]
  have f_hit: "fst (CachedFieldRepository_FindByID fr t ctx fid) = (fcached, None)
          \<and> external_calls t (snd (CachedFieldRepository_FindByID fr t ctx fid)) =
              [Cache_Get (''field:id:'' @ fid)]" if "fgerr = None"
    using that by (auto simp: f obs_defs)
  have f_miss: "fst (CachedFieldRepository_FindByID fr t ctx fid) =
              (if ferr = None then (field, None) else (None, ferr))
          \<and> external_calls t (snd (CachedFieldRepository_FindByID fr t ctx fid)) =
              [Cache_Get (''field:id:'' @ fid), FieldRepo_FindByID fid]
              @ (if ferr = None \<and> field \<noteq> None
                 then [Cache_Set (''field:id:'' @ fid) (CV_Field field) (cf_ttl fr)] else [])"
    if "fgerr \<noteq> None"
    using that by (auto simp: f obs_defs)
  have r_hit: "fst (CachedRecordRepository_FindByTableAndID rr t ctx tid rid) = (rcached, None)
          \<and> external_calls t (snd (CachedRecordRepository_FindByTableAndID rr t ctx tid rid)) =
              [Cache_Get (''record:id:'' @ tid @ '':'' @ rid)]" if "rgerr = None"
    using that by (auto simp: r obs_defs)
  have r_miss: "fst (CachedRecordRepository_FindByTableAndID rr t ctx tid rid) =
              (if rerr = None then (rcd, None) else (None, rerr))
          \<and> external_calls t (snd (CachedRecordRepository_FindByTableAndID rr t ctx tid rid)) =
              [Cache_Get (''record:id:'' @ tid @ '':'' @ rid), RecordRepo_FindByTableAndID tid rid]
              @ (if rerr = None \<and> rcd \<noteq> None
                 then [Cache_Set (''record:id:'' @ tid @ '':'' @ rid) (CV_Record rcd) (cr_ttl rr)]
                 else [])"
    if "rgerr \<noteq> None"
    using that by (auto simp: r obs_defs)
  from f_hit f_miss r_hit r_miss show ?thesis by blast
qed

theorem point_read_cache_aside_witness:
  "fst (CachedFieldRepository_FindByID
          \<lparr>cf_repo = example_field_repo, cf_cacheService = warm_cache, cf_ttl = 5 * Minute\<rparr>
          [] \<lparr>InTransaction = False\<rparr> ''fld1'') = (Some stale_field, None)
 \<and> external_calls [] (snd (CachedFieldRepository_FindByID
          \<lparr>cf_repo = example_field_repo, cf_cacheService = warm_cache, cf_ttl = 5 * Minute\<rparr>
          [] \<lparr>InTransaction = False\<rparr> ''fld1'')) = [Cache_Get ''field:id:fld1'']
 \<and> fst (CachedRecordRepository_FindByTableAndID
          \<lparr>cr_repo = example_record_repo, cr_cacheService = warm_cache, cr_ttl = 2 * Minute\<rparr>
          [] \<lparr>InTransaction = False\<rparr> ''tbl1'' ''rec1'') = (Some stale_record, None)
 \<and> external_calls [] (snd (CachedRecordRepository_FindByTableAndID
          \<lparr>cr_repo = example_record_repo, cr_cacheService = warm_cache, cr_ttl = 2 * Minute\<rparr>
          [] \<lparr>InTransaction = False\<rparr> ''tbl1'' ''rec1'')) = [Cache_Get ''record:id:tbl1:rec1'']
 \<and> fst (CachedFieldRepository_FindByID
          \<lparr>cf_repo = example_field_repo, cf_cacheService = cold_cache, cf_ttl = 5 * Minute\<rparr>
          [] \<lparr>InTransaction = False\<rparr> ''fld1'') = (Some example_field, None)
 \<and> external_calls [] (snd (CachedFieldRepository_FindByID
          \<lparr>cf_repo = example_field_repo, cf_cacheService = cold_cache, cf_ttl = 5 * Minute\<rparr>
          [] \<lparr>InTransaction = False\<rparr> ''fld1'')) =
      [Cache_Get ''field:id:fld1'', FieldRepo_FindByID ''fld1'',
       Cache_Set ''field:id:fld1'' (CV_Field (Some example_field)) (5 * Minute)]
 \<and> fst (CachedRecordRepository_FindByTableAndID
          \<lparr>cr_repo = example_record_repo, cr_cacheService = cold_cache, cr_ttl = 2 * Minute\<rparr>
          [] \<lparr>InTransaction = False\<rparr> ''tbl1'' ''rec1'') = (Some example_record, None)
 \<and> external_calls [] (snd (CachedRecordRepository_FindByTableAndID
          \<lparr>cr_repo = example_record_repo, cr_cacheService = cold_cache, cr_ttl = 2 * Minute\<rparr>
          [] \<lparr>InTransaction = False\<rparr> ''tbl1'' ''rec1'')) =
      [Cache_Get ''record:id:tbl1:rec1'', RecordRepo_FindByTableAndID ''tbl1'' ''rec1'',
       Cache_Set ''record:id:tbl1:rec1'' (CV_Record (Some example_record)) (2 * Minute)]"
  using point_read_cache_aside [of "\<lparr>cf_repo = example_field_repo, cf_cacheService = warm_cache, cf_ttl = 5 * Minute\<rparr>"
               "[]" "\<lparr>InTransaction = False\<rparr>" "''fld1''" "Some stale_field" None
               "Some example_field" None
               "\<lparr>cr_repo = example_record_repo, cr_cacheService = warm_cache, cr_ttl = 2 * Minute\<rparr>"
               "''tbl1''" "''rec1''" "Some stale_record" None "Some example_record" None]
        point_read_cache_aside [of "\<lparr>cf_repo = example_field_repo, cf_cacheService = cold_cache, cf_ttl = 5 * Minute\<rparr>"
               "[]" "\<lparr>InTransaction = False\<rparr>" "''fld1''" None "Some (GoError ''cache miss'')"
               "Some example_field" None
               "\<lparr>cr_repo = example_record_repo, cr_cacheService = cold_cache, cr_ttl = 2 * Minute\<rparr>"
               "''tbl1''" "''rec1''" None "Some (GoError ''cache miss'')" "Some example_record" None]
  by (simp add: example_defs)

text \<open>
  C7. When the cache \<^verbatim>\<open>Get\<close> of a point read fails, the read goes on to the authoritative
  store and returns that store's answer (the entity with a nil error, or nil with the
  store's own error), whatever the cache \<^verbatim>\<open>Set\<close> then returns: a failing \<^verbatim>\<open>Set\<close> only adds
  one warning to the log. No error of the cache provider reaches the caller.
\<close>

theorem cache_failure_not_surfaced:
  assumes fg: "cp_Get_Field (cf_cacheService fr) t ctx (field_buildCacheKey ''id'' fid) = (fcached, fgerr)"
    and fgf: "fgerr \<noteq> None"
    and ff: "fr_FindByID (cf_repo fr) (t @ [Cache_Get (field_buildCacheKey ''id'' fid)]) ctx fid
               = (field, ferr)"
    and fs: "cp_Set (cf_cacheService fr)
               (t @ [Cache_Get (field_buildCacheKey ''id'' fid), FieldRepo_FindByID fid]) ctx
               (field_buildCacheKey ''id'' fid) (CV_Field field) (cf_ttl fr) = fserr"
    and rg: "cp_Get_Record (cr_cacheService rr) t ctx (record_buildCacheKey ''id'' tid rid)
               = (rcached, rgerr)"
    and rgf: "rgerr \<noteq> None"
    and rf: "rr_FindByTableAndID (cr_repo rr)
               (t @ [Cache_Get (record_buildCacheKey ''id'' tid rid)]) ctx tid rid = (rcd, rerr)"
    and rs: "cp_Set (cr_cacheService rr)
               (t @ [Cache_Get (record_buildCacheKey ''id'' tid rid),
                     RecordRepo_FindByTableAndID tid rid]) ctx
               (record_buildCacheKey ''id'' tid rid) (CV_Record rcd) (cr_ttl rr) = rserr"
  shows "fst (CachedFieldRepository_FindByID fr t ctx fid) =
           (if ferr = None then (field, None) else (None, ferr))
       \<and> take 2 (external_calls t (snd (CachedFieldRepository_FindByID fr t ctx fid))) =
           [Cache_Get (''field:id:'' @ fid), FieldRepo_FindByID fid]
       \<and> logged t (snd (CachedFieldRepository_FindByID fr t ctx fid)) =
           (if ferr = None \<and> field \<noteq> None \<and> fserr \<noteq> None
            then [Logger Warn ''failed to cache field''] else [])
       \<and> fst (CachedRecordRepository_FindByTableAndID rr t ctx tid rid) =
           (if rerr = None then (rcd, None) else (None, rerr))
       \<and> take 2 (external_calls t (snd (CachedRecordRepository_FindByTableAndID rr t ctx tid rid))) =
           [Cache_Get (''record:id:'' @ tid @ '':'' @ rid), RecordRepo_FindByTableAndID tid rid]
       \<and> logged t (snd (CachedRecordRepository_FindByTableAndID rr t ctx tid rid)) =
           (if rerr = None \<and> rcd \<noteq> None \<and> rserr \<noteq> None
            then [Logger Warn ''failed to cache record''] else [])"
proof -
  note f = FindByID_calls [OF fg ff fs]
  note r = FindByTableAndID_calls [OF rg rf rs]
  have f1: "fst (CachedFieldRepository_FindByID fr t ctx fid) =
           (if ferr = None then (field, None) else (None, ferr))"
    using fgf by (auto simp: f)
  have f2: "take 2 (external_calls t (snd (CachedFieldRepository_FindByID fr t ctx fid))) =
           [Cache_Get (''field:id:'' @ fid), FieldRepo_FindByID fid]"
    using fgf by (auto simp: f obs_defs)
  have f3: "logged t (snd (CachedFieldRepository_FindByID fr t ctx fid)) =
           (if ferr = None \<and> field \<noteq> None \<and> fserr \<noteq> None
            then [Logger Warn ''failed to cache field''] else [])"
    using fgf by (auto simp: f obs_defs)
  have r1: "fst (CachedRecordRepository_FindByTableAndID rr t ctx tid rid) =
           (if rerr = None then (rcd, None) else (None, rerr))"
    using rgf by (auto simp: r)
  have r2: "take 2 (external_calls t (snd (CachedRecordRepository_FindByTableAndID rr t ctx tid rid))) =
           [Cache_Get (''record:id:'' @ tid @ '':'' @ rid), RecordRepo_FindByTableAndID tid rid]"
    using rgf by (auto simp: r obs_defs)
  have r3: "logged t (snd (CachedRecordRepository_FindByTableAndID rr t ctx tid rid)) =
           (if rerr = None \<and> rcd \<noteq> None \<and> rserr \<noteq> None
            then [Logger Warn ''failed to cache record''] else [])"
    using rgf by (auto simp: r obs_defs)
  from f1 f2 f3 r1 r2 r3 show ?thesis by blast
qed

theorem cache_failure_not_surfaced_witness:
  "fst (CachedFieldRepository_FindByID
          \<lparr>cf_repo = example_field_repo, cf_cacheService = broken_cache, cf_ttl = 5 * Minute\<rparr>
          [] \<lparr>InTransaction = False\<rparr> ''fld1'') = (Some example_field, None)
 \<and> logged [] (snd (CachedFieldRepository_FindByID
          \<lparr>cf_repo = example_field_repo, cf_cacheService = broken_cache, cf_ttl = 5 * Minute\<rparr>
          [] \<lparr>InTransaction = False\<rparr> ''fld1'')) = [Logger Warn ''failed to cache field'']
 \<and> fst (CachedRecordRepository_FindByTableAndID
          \<lparr>cr_repo = example_record_repo, cr_cacheService = broken_cache, cr_ttl = 2 * Minute\<rparr>
          [] \<lparr>InTransaction = False\<rparr> ''tbl1'' ''rec1'') = (Some example_record, None)
 \<and> logged [] (snd (CachedRecordRepository_FindByTableAndID
          \<lparr>cr_repo = example_record_repo, cr_cacheService = broken_cache, cr_ttl = 2 * Minute\<rparr>
          [] \<lparr>InTransaction = False\<rparr> ''tbl1'' ''rec1'')) = [Logger Warn ''failed to cache record'']
 \<and> fst (CachedFieldRepository_FindByID
          \<lparr>cf_repo = failing_field_repo, cf_cacheService = broken_cache, cf_ttl = 5 * Minute\<rparr>
          [] \<lparr>InTransaction = False\<rparr> ''fld1'') = (None, Some (GoError ''database is down''))"
  using cache_failure_not_surfaced [where fr = "\<lparr>cf_repo = example_field_repo, cf_cacheService = broken_cache,
                         cf_ttl = 5 * Minute\<rparr>"
              and t = "[]" and ctx = "\<lparr>InTransaction = False\<rparr>" and fid = "''fld1''"
              and fcached = None and fgerr = "Some (GoError ''connection refused'')"
              and field = "Some example_field" and ferr = None
              and fserr = "Some (GoError ''connection refused'')"
              and rr = "\<lparr>cr_repo = example_record_repo, cr_cacheService = broken_cache,
                         cr_ttl = 2 * Minute\<rparr>"
              and tid = "''tbl1''" and rid = "''rec1''"
              and rcached = None and rgerr = "Some (GoError ''connection refused'')"
              and rcd = "Some example_record" and rerr = None
              and rserr = "Some (GoError ''connection refused'')"]
        cache_failure_not_surfaced [where fr = "\<lparr>cf_repo = failing_field_repo, cf_cacheService = broken_cache,
                         cf_ttl = 5 * Minute\<rparr>"
              and t = "[]" and ctx = "\<lparr>InTransaction = False\<rparr>" and fid = "''fld1''"
              and fcached = None and fgerr = "Some (GoError ''connection refused'')"
              and field = None and ferr = "Some (GoError ''database is down'')"
              and fserr = "Some (GoError ''connection refused'')"
              and rr = "\<lparr>cr_repo = failing_record_repo, cr_cacheService = broken_cache,
                         cr_ttl = 2 * Minute\<rparr>"
              and tid = "''tbl1''" and rid = "''rec1''"
              and rcached = None and rgerr = "Some (GoError ''connection refused'')"
              and rcd = None and rerr = "Some (GoError ''database is down'')"
              and rserr = "Some (GoError ''connection refused'')"]
  by (simp add: example_defs)

text \<open>The collection read outside a transaction and the paged list degrade in the same
  way: after a failing \<^verbatim>\<open>Get\<close> they return the store's answer, whatever \<^verbatim>\<open>Set\<close> returns.\<close>

lemma collection_reads_cache_failure:
  assumes ntx: "\<not> InTransaction ctx"
    and tg: "cp_Get_Fields (cf_cacheService fr) (t @ [Logger Info ''FindByTableID start'']) ctx
               (field_buildCacheKey ''table'' tbl) = (tcached, tgerr)"
    and tgf: "tgerr \<noteq> None"
    and tf: "fr_FindByTableID (cf_repo fr)
               (t @ [Logger Info ''FindByTableID start'',
                     Cache_Get (field_buildCacheKey ''table'' tbl),
                     Logger Info ''FindByTableID cache miss'']) ctx tbl = (fs, terr)"
    and tid: "filter_TableID flt = Some tid"
    and lg: "cp_Get_RecordList (cr_cacheService rr) t ctx
               (record_list_cacheKey tid (filter_Limit flt) (filter_Offset flt))
               = ((cRecords, cTotal), lgerr)"
    and lgf: "lgerr \<noteq> None"
    and lf: "rr_List (cr_repo rr)
               (t @ [Cache_Get (record_list_cacheKey tid (filter_Limit flt) (filter_Offset flt))])
               ctx flt = (records, count, lerr)"
  shows "fst (CachedFieldRepository_FindByTableID fr t ctx tbl) =
           (if terr = None then (fs, None) else (None, terr))
       \<and> take 2 (external_calls t (snd (CachedFieldRepository_FindByTableID fr t ctx tbl))) =
           [Cache_Get (''field:table:'' @ tbl), FieldRepo_FindByTableID tbl]
       \<and> fst (CachedRecordRepository_List rr t ctx flt) =
           Returns (if lerr = None then (records, count, None) else (None, 0, lerr))
       \<and> take 2 (external_calls t (snd (CachedRecordRepository_List rr t ctx flt))) =
           [Cache_Get (record_list_cacheKey tid (filter_Limit flt) (filter_Offset flt)),
            RecordRepo_List flt]"
proof -
  note c = FindByTableID_calls [OF ntx tg tf refl]
  note l = List_calls [OF tid lg lf refl]
  have c1: "fst (CachedFieldRepository_FindByTableID fr t ctx tbl) =
           (if terr = None then (fs, None) else (None, terr))"
    using tgf by (auto simp: c)
  have c2: "take 2 (external_calls t (snd (CachedFieldRepository_FindByTableID fr t ctx tbl))) =
           [Cache_Get (''field:table:'' @ tbl), FieldRepo_FindByTableID tbl]"
    using tgf by (auto simp: c obs_defs)
  have l1: "fst (CachedRecordRepository_List rr t ctx flt) =
           Returns (if lerr = None then (records, count, None) else (None, 0, lerr))"
    using lgf by (auto simp: l)
  have l2: "take 2 (external_calls t (snd (CachedRecordRepository_List rr t ctx flt))) =
           [Cache_Get (record_list_cacheKey tid (filter_Limit flt) (filter_Offset flt)),
            RecordRepo_List flt]"
    using lgf by (auto simp: l obs_defs)
  from c1 c2 l1 l2 show ?thesis by blast
qed

subsection \<open>Writes\<close>

text \<open>
  C4. For every save of a record (and of a field): the wrapped repository's \<^verbatim>\<open>Save\<close> is the
  first call. If it fails its error is returned and nothing else is called. If it
  succeeds, the point-read key of the entity is deleted and then the pattern for the list
  keys of its table is invalidated, and \<^verbatim>\<open>Save\<close> returns nil whatever these two calls
  return: each failure only adds one warning to the log. Every list key of the table
  starts with the record pattern up to its \<^verbatim>\<open>*\<close>. For a field the second key deleted is
  the list key of its table, and the pattern is that same key.
\<close>

theorem save_invalidates_after_mutation:
  assumes s: "rr_Save (cr_repo rr) t ctx rcd = err"
    and d: "cp_Delete (cr_cacheService rr) (t @ [RecordRepo_Save rcd]) ctx
              [record_buildCacheKey ''id'' (record_TableID rcd) (record_ID rcd)] = derr"
    and p: "cp_InvalidatePattern (cr_cacheService rr)
              (t @ [RecordRepo_Save rcd,
                    Cache_Delete [record_buildCacheKey ''id'' (record_TableID rcd) (record_ID rcd)]]
                 @ (if derr \<noteq> None then [Logger Warn ''failed to invalidate record cache''] else []))
              ctx (''record:list:'' @ record_TableID rcd @ '':*'') = perr"
    and fs: "fr_Save (cf_repo fr) t ctx field = ferr"
    and fd: "cp_Delete (cf_cacheService fr) (t @ [FieldRepo_Save field]) ctx
              [field_buildCacheKey ''id'' (field_ID field),
               field_buildCacheKey ''table'' (field_TableID field)] = fderr"
    and fp: "cp_InvalidatePattern (cf_cacheService fr)
              (t @ [FieldRepo_Save field,
                    Cache_Delete [field_buildCacheKey ''id'' (field_ID field),
                                  field_buildCacheKey ''table'' (field_TableID field)]]
                 @ (if fderr \<noteq> None then [Logger Warn ''failed to invalidate field cache''] else []))
              ctx (''field:table:'' @ field_TableID field) = fperr"
  shows "(err \<noteq> None \<longrightarrow>
            CachedRecordRepository_Save rr t ctx rcd = (err, t @ [RecordRepo_Save rcd]))
       \<and> (err = None \<longrightarrow>
            fst (CachedRecordRepository_Save rr t ctx rcd) = None
          \<and> external_calls t (snd (CachedRecordRepository_Save rr t ctx rcd)) =
              [RecordRepo_Save rcd,
               Cache_Delete [''record:id:'' @ record_TableID rcd @ '':'' @ record_ID rcd],
               Cache_InvalidatePattern (''record:list:'' @ record_TableID rcd @ '':*'')]
          \<and> logged t (snd (CachedRecordRepository_Save rr t ctx rcd)) =
              (if derr \<noteq> None then [Logger Warn ''failed to invalidate record cache''] else [])
              @ (if perr \<noteq> None then [Logger Warn ''failed to invalidate record list cache'']
                 else []))
       \<and> take (length (''record:list:'' @ record_TableID rcd @ '':''))
              (record_list_cacheKey (record_TableID rcd) limit offset)
           = ''record:list:'' @ record_TableID rcd @ '':''
       \<and> (ferr \<noteq> None \<longrightarrow>
            CachedFieldRepository_Save fr t ctx field = (ferr, t @ [FieldRepo_Save field]))
       \<and> (ferr = None \<longrightarrow>
            fst (CachedFieldRepository_Save fr t ctx field) = None
          \<and> external_calls t (snd (CachedFieldRepository_Save fr t ctx field)) =
              [FieldRepo_Save field,
               Cache_Delete [''field:id:'' @ field_ID field, ''field:table:'' @ field_TableID field],
               Cache_InvalidatePattern (''field:table:'' @ field_TableID field)]
          \<and> logged t (snd (CachedFieldRepository_Save fr t ctx field)) =
              (if fderr \<noteq> None then [Logger Warn ''failed to invalidate field cache''] else [])
              @ (if fperr \<noteq> None then [Logger Warn ''failed to invalidate field pattern cache'']
                 else []))"
proof -
  note c = record_Save_calls [OF s d p]
  note fc = field_Save_calls [OF fs fd fp]
  have r_fail: "CachedRecordRepository_Save rr t ctx rcd = (err, t @ [RecordRepo_Save rcd])"
    if "err \<noteq> None"
    using that by (simp add: c)
  have r_ok: "fst (CachedRecordRepository_Save rr t ctx rcd) = None
          \<and> external_calls t (snd (CachedRecordRepository_Save rr t ctx rcd)) =
              [RecordRepo_Save rcd,
               Cache_Delete [''record:id:'' @ record_TableID rcd @ '':'' @ record_ID rcd],
               Cache_InvalidatePattern (''record:list:'' @ record_TableID rcd @ '':*'')]
          \<and> logged t (snd (CachedRecordRepository_Save rr t ctx rcd)) =
              (if derr \<noteq> None then [Logger Warn ''failed to invalidate record cache''] else [])
              @ (if perr \<noteq> None then [Logger Warn ''failed to invalidate record list cache'']
                 else [])"
    if "err = None"
    using that by (simp add: c obs_defs)
  have covers: "take (length (''record:list:'' @ record_TableID rcd @ '':''))
              (record_list_cacheKey (record_TableID rcd) limit offset)
           = ''record:list:'' @ record_TableID rcd @ '':''"
    by (simp add: record_list_cacheKey_def)
  have f_fail: "CachedFieldRepository_Save fr t ctx field = (ferr, t @ [FieldRepo_Save field])"
    if "ferr \<noteq> None"
    using that by (simp add: fc)
  have f_ok: "fst (CachedFieldRepository_Save fr t ctx field) = None
          \<and> external_calls t (snd (CachedFieldRepository_Save fr t ctx field)) =
              [FieldRepo_Save field,
               Cache_Delete [''field:id:'' @ field_ID field, ''field:table:'' @ field_TableID field],
               Cache_InvalidatePattern (''field:table:'' @ field_TableID field)]
          \<and> logged t (snd (CachedFieldRepository_Save fr t ctx field)) =
              (if fderr \<noteq> None then [Logger Warn ''failed to invalidate field cache''] else [])
              @ (if fperr \<noteq> None then [Logger Warn ''failed to invalidate field pattern cache'']
                 else [])"
    if "ferr = None"
    using that by (simp add: fc obs_defs)
  from r_fail r_ok covers f_fail f_ok show ?thesis by blast
qed

theorem save_invalidates_after_mutation_witness:
  "CachedRecordRepository_Save
     \<lparr>cr_repo = failing_record_repo, cr_cacheService = warm_cache, cr_ttl = 2 * Minute\<rparr>
     [] \<lparr>InTransaction = False\<rparr> example_record
     = (Some (GoError ''database is down''), [RecordRepo_Save example_record])
 \<and> CachedFieldRepository_Save
     \<lparr>cf_repo = failing_field_repo, cf_cacheService = warm_cache, cf_ttl = 5 * Minute\<rparr>
     [] \<lparr>InTransaction = False\<rparr> example_field
     = (Some (GoError ''database is down''), [FieldRepo_Save example_field])
 \<and> fst (CachedRecordRepository_Save
     \<lparr>cr_repo = example_record_repo, cr_cacheService = broken_cache, cr_ttl = 2 * Minute\<rparr>
     [] \<lparr>InTransaction = False\<rparr> example_record) = None
 \<and> external_calls [] (snd (CachedRecordRepository_Save
     \<lparr>cr_repo = example_record_repo, cr_cacheService = broken_cache, cr_ttl = 2 * Minute\<rparr>
     [] \<lparr>InTransaction = False\<rparr> example_record)) =
       [RecordRepo_Save example_record, Cache_Delete [''record:id:tbl1:rec1''],
        Cache_InvalidatePattern ''record:list:tbl1:*'']
 \<and> logged [] (snd (CachedRecordRepository_Save
     \<lparr>cr_repo = example_record_repo, cr_cacheService = broken_cache, cr_ttl = 2 * Minute\<rparr>
     [] \<lparr>InTransaction = False\<rparr> example_record)) =
       [Logger Warn ''failed to invalidate record cache'',
        Logger Warn ''failed to invalidate record list cache'']
 \<and> fst (CachedFieldRepository_Save
     \<lparr>cf_repo = example_field_repo, cf_cacheService = broken_cache, cf_ttl = 5 * Minute\<rparr>
     [] \<lparr>InTransaction = False\<rparr> example_field) = None
 \<and> external_calls [] (snd (CachedFieldRepository_Save
     \<lparr>cf_repo = example_field_repo, cf_cacheService = broken_cache, cf_ttl = 5 * Minute\<rparr>
     [] \<lparr>InTransaction = False\<rparr> example_field)) =
       [FieldRepo_Save example_field, Cache_Delete [''field:id:fld1'', ''field:table:tbl1''],
        Cache_InvalidatePattern ''field:table:tbl1'']"
  using save_invalidates_after_mutation [where rr = "\<lparr>cr_repo = failing_record_repo, cr_cacheService = warm_cache,
                         cr_ttl = 2 * Minute\<rparr>"
              and t = "[]" and ctx = "\<lparr>InTransaction = False\<rparr>" and rcd = example_record
              and err = "Some (GoError ''database is down'')" and derr = None and perr = None
              and fr = "\<lparr>cf_repo = failing_field_repo, cf_cacheService = warm_cache,
                         cf_ttl = 5 * Minute\<rparr>"
              and field = example_field
              and ferr = "Some (GoError ''database is down'')" and fderr = None and fperr = None]
        save_invalidates_after_mutation [where rr = "\<lparr>cr_repo = example_record_repo, cr_cacheService = broken_cache,
                         cr_ttl = 2 * Minute\<rparr>"
              and t = "[]" and ctx = "\<lparr>InTransaction = False\<rparr>" and rcd = example_record
              and err = None and derr = "Some (GoError ''connection refused'')"
              and perr = "Some (GoError ''connection refused'')"
              and fr = "\<lparr>cf_repo = example_field_repo, cf_cacheService = broken_cache,
                         cf_ttl = 5 * Minute\<rparr>"
              and field = example_field
              and ferr = None and fderr = "Some (GoError ''connection refused'')"
              and fperr = "Some (GoError ''connection refused'')"]
  by (simp add: example_defs)

subsection \<open>Reads inside a write-transaction\<close>

text \<open>Inside a transaction \<^verbatim>\<open>CachedFieldRepository.FindByTableID\<close> logs and goes straight
  to the wrapped repository, whose answer it returns as it is.\<close>

lemma FindByTableID_in_transaction:
  assumes "InTransaction ctx"
  shows "CachedFieldRepository_FindByTableID r t ctx tid =
           (fr_FindByTableID (cf_repo r)
              (t @ [Logger Info ''FindByTableID in transaction, cache disabled'']) ctx tid,
            t @ [Logger Info ''FindByTableID in transaction, cache disabled'',
                 FieldRepo_FindByTableID tid])"
  using assms by (simp add: CachedFieldRepository_FindByTableID_def Let_def)

text \<open>
  C1. The point read has no such bypass. With the context marked as inside a
  write-transaction, \<^verbatim>\<open>CachedFieldRepository.FindByID\<close> on a cache that holds an earlier
  version of field \<^verbatim>\<open>fld1\<close> calls the cache \<^verbatim>\<open>Get\<close> and returns the cached version
  without asking the repository, which holds another version; on an empty cache it
  calls \<^verbatim>\<open>Get\<close>, reads the repository and calls \<^verbatim>\<open>Set\<close>.
\<close>

theorem FindByID_in_transaction_reads_cache:
  "CachedFieldRepository_FindByID
     \<lparr>cf_repo = example_field_repo, cf_cacheService = warm_cache, cf_ttl = 5 * Minute\<rparr>
     [] \<lparr>InTransaction = True\<rparr> ''fld1''
     = ((Some stale_field, None), [Cache_Get ''field:id:fld1'', Logger Debug ''field cache hit''])
 \<and> CachedFieldRepository_FindByID
     \<lparr>cf_repo = example_field_repo, cf_cacheService = cold_cache, cf_ttl = 5 * Minute\<rparr>
     [] \<lparr>InTransaction = True\<rparr> ''fld1''
     = ((Some example_field, None),
        [Cache_Get ''field:id:fld1'', FieldRepo_FindByID ''fld1'',
         Cache_Set ''field:id:fld1'' (CV_Field (Some example_field)) (5 * Minute)])
 \<and> fr_FindByID example_field_repo [] \<lparr>InTransaction = True\<rparr> ''fld1''
     = (Some example_field, None)
 \<and> stale_field \<noteq> example_field"
  by (simp add: CachedFieldRepository_FindByID_def field_buildCacheKey_def Let_def example_defs)

subsection \<open>Batch deletes\<close>

text \<open>\<^verbatim>\<open>CachedRecordRepository.BatchDelete\<close>, once the wrapped repository has deleted the
  records, invalidates the pattern \<^verbatim>\<open>record:*:*:<id>\<close> for every id of the batch, in order.\<close>

lemma record_BatchDelete_loop_calls:
  "external_calls t (record_BatchDelete_loop r (t @ u) ctx ids) =
     external_calls t (t @ u) @ map (\<lambda>ident. Cache_InvalidatePattern (''record:*:*:'' @ ident)) ids"
proof (induction ids arbitrary: u)
  case Nil
  show ?case by simp
next
  case (Cons ident ids)
  show ?case
    using Cons.IH [of "u @ [Cache_InvalidatePattern (''record:*:*:'' @ ident)]"]
          Cons.IH [of "u @ [Cache_InvalidatePattern (''record:*:*:'' @ ident),
                            Logger Warn ''failed to invalidate record cache'']"]
    by (simp add: Let_def obs_defs)
qed

lemma record_BatchDelete_calls:
  assumes "rr_BatchDelete (cr_repo r) t ctx ids = None"
  shows "fst (CachedRecordRepository_BatchDelete r t ctx ids) = None"
    and "external_calls t (snd (CachedRecordRepository_BatchDelete r t ctx ids)) =
           RecordRepo_BatchDelete ids
           # map (\<lambda>ident. Cache_InvalidatePattern (''record:*:*:'' @ ident)) ids"
  using assms record_BatchDelete_loop_calls [of t r "[RecordRepo_BatchDelete ids]" ctx ids]
  by (simp_all add: CachedRecordRepository_BatchDelete_def Let_def obs_defs)

text \<open>
  C6. \<^verbatim>\<open>CachedFieldRepository.BatchDelete\<close> is given ids only as well, and invalidates
  nothing: deleting the fields \<^verbatim>\<open>fld1\<close> and \<^verbatim>\<open>fld2\<close> through it makes one call, to the
  wrapped repository, and none to the cache provider.
\<close>

theorem field_BatchDelete_invalidates_nothing:
  "CachedFieldRepository_BatchDelete
     \<lparr>cf_repo = example_field_repo, cf_cacheService = warm_cache, cf_ttl = 5 * Minute\<rparr>
     [] \<lparr>InTransaction = False\<rparr> [''fld1'', ''fld2'']
     = (None, [FieldRepo_BatchDelete [''fld1'', ''fld2'']])"
  by (simp add: CachedFieldRepository_BatchDelete_def example_defs)

subsection \<open>Paged lists\<close>

text \<open>
  C10. \<^verbatim>\<open>CachedRecordRepository.List\<close> dereferences \<^verbatim>\<open>filter.TableID\<close> to build its cache
  key: it panics exactly when that pointer is nil, before any call is made. With a
  non-nil \<^verbatim>\<open>TableID\<close> it returns, its first call is the cache \<^verbatim>\<open>Get\<close> under the key
  \<^verbatim>\<open>record:list:<TableID>:<Limit>:<Offset>\<close>, and two filters that agree on these three
  components use the same key.
\<close>

theorem List_panics_iff_nil_TableID:
  "(filter_TableID flt = None \<longleftrightarrow>
      (\<exists>msg. fst (CachedRecordRepository_List r t ctx flt) = Panics msg))
 \<and> (filter_TableID flt = None \<longrightarrow>
      CachedRecordRepository_List r t ctx flt = (Panics ''nil pointer dereference'', t))
 \<and> (filter_TableID flt = Some tid \<longrightarrow>
      (\<exists>res. fst (CachedRecordRepository_List r t ctx flt) = Returns res)
    \<and> hd (new_calls t (snd (CachedRecordRepository_List r t ctx flt))) =
        Cache_Get (''record:list:'' @ tid @ '':'' @ sprint_d (filter_Limit flt)
                   @ '':'' @ sprint_d (filter_Offset flt)))
 \<and> (filter_TableID flt = Some tid \<and> filter_TableID flt' = Some tid
      \<and> filter_Limit flt' = filter_Limit flt \<and> filter_Offset flt' = filter_Offset flt \<longrightarrow>
      hd (new_calls t (snd (CachedRecordRepository_List r t ctx flt'))) =
      hd (new_calls t (snd (CachedRecordRepository_List r t ctx flt))))"
proof -
  have key: "(\<exists>res. fst (CachedRecordRepository_List r t ctx f) = Returns res)
      \<and> hd (new_calls t (snd (CachedRecordRepository_List r t ctx f))) =
          Cache_Get (''record:list:'' @ tid' @ '':'' @ sprint_d (filter_Limit f)
                     @ '':'' @ sprint_d (filter_Offset f))"
    if "filter_TableID f = Some tid'" for f tid'
  proof -
    obtain cRecords cTotal gerr where g:
      "cp_Get_RecordList (cr_cacheService r) t ctx
         (record_list_cacheKey tid' (filter_Limit f) (filter_Offset f)) = ((cRecords, cTotal), gerr)"
      by (metis surj_pair)
    obtain records count err where l:
      "rr_List (cr_repo r)
         (t @ [Cache_Get (record_list_cacheKey tid' (filter_Limit f) (filter_Offset f))]) ctx f
         = (records, count, err)"
      by (metis surj_pair)
    show ?thesis
      using List_calls [OF that g l refl]
      by (simp add: obs_defs record_list_cacheKey_def)
  qed
  have nil: "CachedRecordRepository_List r t ctx flt = (Panics ''nil pointer dereference'', t)"
    if "filter_TableID flt = None"
    using that by (simp add: CachedRecordRepository_List_def)
  have iff: "filter_TableID flt = None \<longleftrightarrow>
      (\<exists>msg. fst (CachedRecordRepository_List r t ctx flt) = Panics msg)"
  proof (cases "filter_TableID flt")
    case None
    then show ?thesis using nil by simp
  next
    case (Some tid')
    then show ?thesis using key [OF Some] by auto
  qed
  from key [of flt tid] key [of flt' tid] nil iff show ?thesis by simp
qed

theorem List_panics_iff_nil_TableID_witness:
  "CachedRecordRepository_List
     \<lparr>cr_repo = example_record_repo, cr_cacheService = cold_cache, cr_ttl = 2 * Minute\<rparr>
     [] \<lparr>InTransaction = False\<rparr>
     \<lparr>filter_TableID = None, filter_Limit = 20, filter_Offset = 40, filter_criteria = []\<rparr>
     = (Panics ''nil pointer dereference'', [])
 \<and> hd (new_calls [] (snd (CachedRecordRepository_List
     \<lparr>cr_repo = example_record_repo, cr_cacheService = cold_cache, cr_ttl = 2 * Minute\<rparr>
     [] \<lparr>InTransaction = False\<rparr>
     \<lparr>filter_TableID = Some ''tbl1'', filter_Limit = 20, filter_Offset = 40,
      filter_criteria = []\<rparr>))) = Cache_Get ''record:list:tbl1:20:40''
 \<and> hd (new_calls [] (snd (CachedRecordRepository_List
     \<lparr>cr_repo = example_record_repo, cr_cacheService = cold_cache, cr_ttl = 2 * Minute\<rparr>
     [] \<lparr>InTransaction = False\<rparr>
     \<lparr>filter_TableID = Some ''tbl1'', filter_Limit = 20, filter_Offset = 40,
      filter_criteria = ''status=open''\<rparr>))) = Cache_Get ''record:list:tbl1:20:40''"
  using List_panics_iff_nil_TableID [of "\<lparr>filter_TableID = None, filter_Limit = 20, filter_Offset = 40,
                  filter_criteria = []\<rparr>"
                "\<lparr>cr_repo = example_record_repo, cr_cacheService = cold_cache, cr_ttl = 2 * Minute\<rparr>"
                "[]" "\<lparr>InTransaction = False\<rparr>"]
        List_panics_iff_nil_TableID [of "\<lparr>filter_TableID = Some ''tbl1'', filter_Limit = 20, filter_Offset = 40,
                  filter_criteria = []\<rparr>"
                "\<lparr>cr_repo = example_record_repo, cr_cacheService = cold_cache, cr_ttl = 2 * Minute\<rparr>"
                "[]" "\<lparr>InTransaction = False\<rparr>" "''tbl1''"
                "\<lparr>filter_TableID = Some ''tbl1'', filter_Limit = 20, filter_Offset = 40,
                  filter_criteria = ''status=open''\<rparr>"]
  by (simp add: sprint_d_def decimal.simps digit_char_def)

section \<open>Properties of the subscription service\<close>

subsection \<open>What listeners and the transport leave alone\<close>

lemma same_registry_refl: "same_registry w w"
  by (simp add: same_registry_def)

lemma same_registry_trans:
  "same_registry w w' \<Longrightarrow> same_registry w' w'' \<Longrightarrow> same_registry w w''"
  by (simp add: same_registry_def)

lemma run_adapter_frame:
  "same_registry w (run_adapter w f e) \<and> docs (run_adapter w f e) = docs w"
  by (cases "(w, f, e)" rule: run_adapter.cases)
     (simp_all add: same_registry_def call_listener_def Let_def)

lemma foldl_run_adapter_frame:
  "same_registry w (foldl (\<lambda>w' f. run_adapter w' f e) w fs)
   \<and> docs (foldl (\<lambda>w' f. run_adapter w' f e) w fs) = docs w"
proof (induction fs arbitrary: w)
  case Nil
  show ?case by (simp add: same_registry_refl)
next
  case (Cons f fs)
  show ?case
    using Cons.IH [of "run_adapter w f e"] run_adapter_frame [of w f e]
    by (auto intro: same_registry_trans)
qed

lemma emit_frame: "same_registry w (emit w h e) \<and> docs (emit w h e) = docs w"
  unfolding emit_def by (rule foldl_run_adapter_frame)

lemma transport_frame: "same_registry w (transport w s)"
proof (cases s)
  case (SetData h d)
  then show ?thesis by (simp add: same_registry_def)
next
  case (Emit h e)
  then show ?thesis using emit_frame [of w h e] by simp
qed

lemma steps_frame: "same_registry w (foldl transport w steps)"
proof (induction steps arbitrary: w)
  case Nil
  show ?case by (simp add: same_registry_refl)
next
  case (Cons s steps)
  show ?case
    using Cons.IH [of "transport w s"] transport_frame [of w s]
    by (auto intro: same_registry_trans)
qed

subsection \<open>The state after \<open>subscribeRecord\<close>, and what an event delivers\<close>

lemma subscribeRecord_begin_ok:
  assumes "isConnected w" and "tableId w = Some tid" and "tid \<noteq> []"
  shows "subscribeRecord_begin w recordId onUpdate =
           Inr (getDocument w (''rec_'' @ tid) recordId,
                w\<lparr>eventHandlers :=
                     (eventHandlers w)(recordId \<mapsto> insert onUpdate (registered_listeners w recordId)),
                   docs := (docs w)(getDocument w (''rec_'' @ tid) recordId :=
                     (docs w (getDocument w (''rec_'' @ tid) recordId))
                       \<lparr>doc_handlers :=
                          doc_handlers (docs w (getDocument w (''rec_'' @ tid) recordId))
                          @ adapters recordId (getDocument w (''rec_'' @ tid) recordId) onUpdate\<rparr>)\<rparr>)"
  using assms
  by (simp add: subscribeRecord_begin_def getCollectionName_def doc_on_def Let_def
                registered_listeners_def adapters_def)

text \<open>The state a call of \<open>subscribeRecord\<close> leaves, whichever way the promise settles.\<close>

lemma subscribeRecord_state:
  assumes conn: "isConnected w" and tid: "tableId w = Some tid" "tid \<noteq> []"
    and h: "h = getDocument w (''rec_'' @ tid) recordId"
    and w': "w' = snd (subscribeRecord w recordId onUpdate during settled)"
  shows "fst (subscribeRecord w recordId onUpdate during settled) = settled"
    and "tableId w' = tableId w" and "isConnected w' = isConnected w"
    and "getDocument w' = getDocument w" and "submitted w' = submitted w"
    and "subscribedDocs w' =
           (if settled = None then (subscribedDocs w)(recordId \<mapsto> h) else subscribedDocs w)"
    and "eventHandlers w' =
           (eventHandlers w)(recordId \<mapsto> insert onUpdate (registered_listeners w recordId))"
    and "doc_handlers (docs w' h') =
           (if h' = h then doc_handlers (docs w h) @ adapters recordId h onUpdate
            else doc_handlers (docs w h'))"
    and "doc_subscribed (docs w' h') =
           (if h' = h \<and> settled = None then True else doc_subscribed (docs w h'))"
    and "doc_destroyed (docs w' h') = doc_destroyed (docs w h')"
proof -
  define w1 where "w1 = w\<lparr>eventHandlers :=
                     (eventHandlers w)(recordId \<mapsto> insert onUpdate (registered_listeners w recordId)),
                   docs := (docs w)(h := (docs w h)
                       \<lparr>doc_handlers := doc_handlers (docs w h) @ adapters recordId h onUpdate\<rparr>)\<rparr>"
  have b: "subscribeRecord_begin w recordId onUpdate = Inr (h, w1)"
    using subscribeRecord_begin_ok [OF conn tid] by (simp add: h w1_def)
  define w2 where "w2 = foldl transport w1 during"
  have fr: "same_registry w1 w2"
    unfolding w2_def by (rule steps_frame)
  have w'_eq: "w' = (case settled of
                      Some err \<Rightarrow> w2
                    | None \<Rightarrow> subscribeRecord_resume
                               (w2\<lparr>docs := (docs w2)(h := (docs w2 h)\<lparr>doc_subscribed := True\<rparr>)\<rparr>)
                               recordId h onUpdate)"
    by (simp add: w' subscribeRecord_def b w2_def doc_subscribe_settled_def Let_def
             split: option.splits)
  show "fst (subscribeRecord w recordId onUpdate during settled) = settled"
    by (simp add: subscribeRecord_def b Let_def split: option.splits)
  show "tableId w' = tableId w" "isConnected w' = isConnected w"
       "getDocument w' = getDocument w" "submitted w' = submitted w"
    using fr
    by (simp_all add: w'_eq same_registry_def w1_def subscribeRecord_resume_def call_listener_def
                      Let_def split: option.splits)
  show "subscribedDocs w' =
           (if settled = None then (subscribedDocs w)(recordId \<mapsto> h) else subscribedDocs w)"
    using fr
    by (simp add: w'_eq same_registry_def w1_def subscribeRecord_resume_def call_listener_def
                  Let_def split: option.splits)
  show "eventHandlers w' =
           (eventHandlers w)(recordId \<mapsto> insert onUpdate (registered_listeners w recordId))"
    using fr
    by (simp add: w'_eq same_registry_def w1_def subscribeRecord_resume_def call_listener_def
                  Let_def split: option.splits)
  have hs: "doc_handlers (docs w2 k) =
              (if k = h then doc_handlers (docs w h) @ adapters recordId h onUpdate
               else doc_handlers (docs w k))"
           "doc_subscribed (docs w2 k) = doc_subscribed (docs w k)"
           "doc_destroyed (docs w2 k) = doc_destroyed (docs w k)" for k
    using fr by (simp_all add: same_registry_def w1_def)
  show "doc_handlers (docs w' h') =
           (if h' = h then doc_handlers (docs w h) @ adapters recordId h onUpdate
            else doc_handlers (docs w h'))"
    by (simp add: w'_eq hs subscribeRecord_resume_def call_listener_def
                  Let_def split: option.splits)
  show "doc_subscribed (docs w' h') =
           (if h' = h \<and> settled = None then True else doc_subscribed (docs w h'))"
    by (simp add: w'_eq hs subscribeRecord_resume_def call_listener_def
                  Let_def split: option.splits)
  show "doc_destroyed (docs w' h') = doc_destroyed (docs w h')"
    by (simp add: w'_eq hs subscribeRecord_resume_def call_listener_def
                  Let_def split: option.splits)
qed

text \<open>The callbacks that \<open>subscribeRecord\<close> attached for the listeners \<open>ls\<close>, called in
  turn for one event.\<close>

lemma run_adapters_one:
  "foldl (\<lambda>w' f. run_adapter w' f e) w
     (map snd (filter (\<lambda>nf. fst nf = event_name e) (adapters recordId h l)))
   = w\<lparr>delivered := delivered w @ [(l, listener_event (doc_data (docs w h)) e)],
        console_error := console_error w
          @ (case e of Error err \<Rightarrow> [''ShareDB document error for record '' @ recordId @ '':'']
             | _ \<Rightarrow> [])\<rparr>"
  by (cases e)
     (simp_all add: adapters_def call_listener_def Let_def js_or_def snapshot_event_def)

lemma run_adapters_deliver:
  "foldl (\<lambda>w' f. run_adapter w' f e) w
     (map snd (filter (\<lambda>nf. fst nf = event_name e) (concat (map (adapters recordId h) ls))))
   = w\<lparr>delivered := delivered w @ map (\<lambda>l. (l, listener_event (doc_data (docs w h)) e)) ls,
        console_error := console_error w
          @ (case e of Error err \<Rightarrow>
               map (\<lambda>l. ''ShareDB document error for record '' @ recordId @ '':'') ls
             | _ \<Rightarrow> [])\<rparr>"
proof (induction ls arbitrary: w)
  case Nil
  show ?case by (cases e) simp_all
next
  case (Cons l ls)
  show ?case
    by (simp add: run_adapters_one Cons.IH split: doc_event.splits)
qed

lemma emit_delivers:
  assumes "doc_handlers (docs w h) = concat (map (adapters recordId h) ls)"
  shows "emit w h e =
     w\<lparr>delivered := delivered w @ map (\<lambda>l. (l, listener_event (doc_data (docs w h)) e)) ls,
        console_error := console_error w
          @ (case e of Error err \<Rightarrow>
               map (\<lambda>l. ''ShareDB document error for record '' @ recordId @ '':'') ls
             | _ \<Rightarrow> [])\<rparr>"
  unfolding emit_def assms by (rule run_adapters_deliver)

subsection \<open>Field updates\<close>

text \<open>
  C3. The operation list built for a field update is empty exactly when \<^verbatim>\<open>newValue\<close> is
  absent (\<^verbatim>\<open>undefined\<close> or \<^verbatim>\<open>null\<close>) and \<^verbatim>\<open>oldValue\<close> is absent (\<^verbatim>\<open>undefined\<close>: the
  optional parameter was left out; a \<^verbatim>\<open>null\<close> passed for it is a known old value).
  Otherwise it is one entry at path \<^verbatim>\<open>['data', fieldId]\<close>: a delete entry carrying \<^verbatim>\<open>od\<close>
  when \<^verbatim>\<open>newValue\<close> is absent and \<^verbatim>\<open>oldValue\<close> known, a replace entry carrying \<^verbatim>\<open>oi\<close> and
  \<^verbatim>\<open>od\<close> when both are there, an insert entry carrying \<^verbatim>\<open>oi\<close> when only \<^verbatim>\<open>newValue\<close> is.
  \<^verbatim>\<open>doc.submitOp\<close> is called once with the list when it is not empty and not at all when
  it is empty, so no empty list is ever submitted.
\<close>

theorem field_update_translation:
  "(submitFieldUpdate_op fieldId newValue oldValue = [] \<longleftrightarrow>
      (newValue = JUndefined \<or> newValue = JNull) \<and> oldValue = JUndefined)
 \<and> ((newValue = JUndefined \<or> newValue = JNull) \<and> oldValue \<noteq> JUndefined \<longrightarrow>
      submitFieldUpdate_op fieldId newValue oldValue =
        [\<lparr>op_p = [''data'', fieldId], op_oi = None, op_od = Some oldValue\<rparr>])
 \<and> (newValue \<noteq> JUndefined \<and> newValue \<noteq> JNull \<and> oldValue \<noteq> JUndefined \<longrightarrow>
      submitFieldUpdate_op fieldId newValue oldValue =
        [\<lparr>op_p = [''data'', fieldId], op_oi = Some newValue, op_od = Some oldValue\<rparr>])
 \<and> (newValue \<noteq> JUndefined \<and> newValue \<noteq> JNull \<and> oldValue = JUndefined \<longrightarrow>
      submitFieldUpdate_op fieldId newValue oldValue =
        [\<lparr>op_p = [''data'', fieldId], op_oi = Some newValue, op_od = None\<rparr>])
 \<and> (subscribedDocs w recordId = Some doc \<longrightarrow>
      submitted (snd (submitFieldUpdate w recordId fieldId newValue oldValue settled)) =
        submitted w
        @ (if submitFieldUpdate_op fieldId newValue oldValue = [] then []
           else [(doc, submitFieldUpdate_op fieldId newValue oldValue)])
    \<and> fst (submitFieldUpdate w recordId fieldId newValue oldValue settled) =
        (if submitFieldUpdate_op fieldId newValue oldValue = [] then None else settled))
 \<and> (subscribedDocs w recordId = None \<longrightarrow>
      submitted (snd (submitFieldUpdate w recordId fieldId newValue oldValue settled)) =
        submitted w)
 \<and> (\<forall>s \<in> set (drop (length (submitted w))
               (submitted (snd (submitFieldUpdate w recordId fieldId newValue oldValue settled)))).
      snd s \<noteq> [])"
proof -
  have op: "(submitFieldUpdate_op fieldId newValue oldValue = [] \<longleftrightarrow>
      (newValue = JUndefined \<or> newValue = JNull) \<and> oldValue = JUndefined)"
    by (simp add: submitFieldUpdate_op_def)
  have shapes:
    "(newValue = JUndefined \<or> newValue = JNull) \<and> oldValue \<noteq> JUndefined \<longrightarrow>
      submitFieldUpdate_op fieldId newValue oldValue =
        [\<lparr>op_p = [''data'', fieldId], op_oi = None, op_od = Some oldValue\<rparr>]"
    "newValue \<noteq> JUndefined \<and> newValue \<noteq> JNull \<and> oldValue \<noteq> JUndefined \<longrightarrow>
      submitFieldUpdate_op fieldId newValue oldValue =
        [\<lparr>op_p = [''data'', fieldId], op_oi = Some newValue, op_od = Some oldValue\<rparr>]"
    "newValue \<noteq> JUndefined \<and> newValue \<noteq> JNull \<and> oldValue = JUndefined \<longrightarrow>
      submitFieldUpdate_op fieldId newValue oldValue =
        [\<lparr>op_p = [''data'', fieldId], op_oi = Some newValue, op_od = None\<rparr>]"
    by (simp_all add: submitFieldUpdate_op_def)
  have sub: "submitFieldUpdate w recordId fieldId newValue oldValue settled =
        (case subscribedDocs w recordId of
           None \<Rightarrow>
             (Some (JsError (''Document for record '' @ recordId @ '' is not subscribed.'')), w)
         | Some doc \<Rightarrow>
             if submitFieldUpdate_op fieldId newValue oldValue = [] then (None, w)
             else (settled,
                   w\<lparr>submitted := submitted w
                        @ [(doc, submitFieldUpdate_op fieldId newValue oldValue)]\<rparr>))"
    by (simp add: submitFieldUpdate_def Let_def split: option.splits)
  have s1: "subscribedDocs w recordId = Some doc \<longrightarrow>
      submitted (snd (submitFieldUpdate w recordId fieldId newValue oldValue settled)) =
        submitted w
        @ (if submitFieldUpdate_op fieldId newValue oldValue = [] then []
           else [(doc, submitFieldUpdate_op fieldId newValue oldValue)])
    \<and> fst (submitFieldUpdate w recordId fieldId newValue oldValue settled) =
        (if submitFieldUpdate_op fieldId newValue oldValue = [] then None else settled)"
    by (simp add: sub)
  have s2: "subscribedDocs w recordId = None \<longrightarrow>
      submitted (snd (submitFieldUpdate w recordId fieldId newValue oldValue settled)) =
        submitted w"
    by (simp add: sub)
  have s3: "\<forall>s \<in> set (drop (length (submitted w))
               (submitted (snd (submitFieldUpdate w recordId fieldId newValue oldValue settled)))).
      snd s \<noteq> []"
    by (simp add: sub split: option.splits)
  from op shapes s1 s2 s3 show ?thesis by blast
qed

theorem field_update_translation_witness:
  "submitFieldUpdate_op ''fld1'' JNull JUndefined = []
 \<and> submitFieldUpdate_op ''fld1'' JUndefined (JNum 5) =
      [\<lparr>op_p = [''data'', ''fld1''], op_oi = None, op_od = Some (JNum 5)\<rparr>]
 \<and> submitFieldUpdate_op ''fld1'' (JNum 6) (JNum 5) =
      [\<lparr>op_p = [''data'', ''fld1''], op_oi = Some (JNum 6), op_od = Some (JNum 5)\<rparr>]
 \<and> submitFieldUpdate_op ''fld1'' (JNum 6) JUndefined =
      [\<lparr>op_p = [''data'', ''fld1''], op_oi = Some (JNum 6), op_od = None\<rparr>]
 \<and> submitted (snd (submitFieldUpdate subscribed_world ''rec1'' ''fld1'' JNull JUndefined None)) = []
 \<and> submitted (snd (submitFieldUpdate subscribed_world ''rec1'' ''fld1'' (JNum 6) (JNum 5) None)) =
      [(1, [\<lparr>op_p = [''data'', ''fld1''], op_oi = Some (JNum 6), op_od = Some (JNum 5)\<rparr>])]
 \<and> submitted (snd (submitFieldUpdate example_world ''rec1'' ''fld1'' (JNum 6) (JNum 5) None)) = []"
  using field_update_translation [of "''fld1''" JNull JUndefined subscribed_world "''rec1''" 1 None]
        field_update_translation [of "''fld1''" JUndefined "JNum 5" subscribed_world "''rec1''" 1 None]
        field_update_translation [of "''fld1''" "JNum 6" "JNum 5" subscribed_world "''rec1''" 1 None]
        field_update_translation [of "''fld1''" "JNum 6" JUndefined subscribed_world "''rec1''" 1 None]
        field_update_translation [of "''fld1''" "JNum 6" "JNum 5" example_world "''rec1''" 1 None]
  by (simp add: subscribed_world_def example_world_def)

subsection \<open>Subscriptions\<close>

text \<open>
  C2. On a connected service with its table set, two calls of \<^verbatim>\<open>subscribeRecord\<close> for the
  same \<^verbatim>\<open>recordId\<close> that both resolve, with no unsubscribe in between, and whatever the
  transport does during the calls, between them and afterwards: both calls return; the
  registry holds one handle for the record, the one \<^verbatim>\<open>getDocument\<close> gives for it,
  subscribed and not destroyed; the two calls added one key to \<^verbatim>\<open>subscribedDocs\<close>; both
  listeners are registered; the handle carries the three callbacks of each listener and
  no other handle was touched; and every event the handle emits afterwards is delivered
  once to the first listener and once to the second: an operation event as it is, a load
  or error event as a snapshot. The handle is one that carried no callbacks before the
  first call. \<^verbatim>\<open>getDocument\<close> is the client's: a function of the collection and the
  record id.
\<close>

theorem subscribe_twice_one_handle_both_listeners:
  assumes conn: "isConnected w" and tid: "tableId w = Some tid" "tid \<noteq> []"
    and h: "h = getDocument w (''rec_'' @ tid) recordId"
    and fresh: "doc_handlers (docs w h) = []" "\<not> doc_destroyed (docs w h)"
    and w1: "w1 = snd (subscribeRecord w recordId l1 during1 None)"
    and wm: "wm = foldl transport w1 between"
    and w2: "w2 = snd (subscribeRecord wm recordId l2 during2 None)"
    and w3: "w3 = foldl transport w2 later"
  shows "fst (subscribeRecord w recordId l1 during1 None) = None
       \<and> fst (subscribeRecord wm recordId l2 during2 None) = None
       \<and> subscribedDocs w3 recordId = Some h
       \<and> dom (subscribedDocs w3) = insert recordId (dom (subscribedDocs w))
       \<and> doc_subscribed (docs w3 h) \<and> \<not> doc_destroyed (docs w3 h)
       \<and> registered_listeners w3 recordId = insert l2 (insert l1 (registered_listeners w recordId))
       \<and> doc_handlers (docs w3 h) =
           [(''load'', handleLoad l1), (''op'', handleOp l1), (''error'', handleError recordId h l1),
            (''load'', handleLoad l2), (''op'', handleOp l2), (''error'', handleError recordId h l2)]
       \<and> (\<forall>h'. h' \<noteq> h \<longrightarrow> doc_handlers (docs w3 h') = doc_handlers (docs w h'))
       \<and> new_deliveries w3 (emit w3 h (Op event)) = [(l1, event), (l2, event)]
       \<and> new_deliveries w3 (emit w3 h (Load d)) =
           [(l1, \<lparr>ev_op = [], ev_source = False, ev_data = d\<rparr>),
            (l2, \<lparr>ev_op = [], ev_source = False, ev_data = d\<rparr>)]
       \<and> new_deliveries w3 (emit w3 h (Error err)) =
           [(l1, \<lparr>ev_op = [], ev_source = False,
                  ev_data = (if js_truthy (doc_data (docs w3 h))
                             then doc_data (docs w3 h) else JObj [])\<rparr>),
            (l2, \<lparr>ev_op = [], ev_source = False,
                  ev_data = (if js_truthy (doc_data (docs w3 h))
                             then doc_data (docs w3 h) else JObj [])\<rparr>)]"
proof -
  note s1 = subscribeRecord_state [OF conn tid h w1]
  have fm: "same_registry w1 wm"
    unfolding wm by (rule steps_frame)
  have conn1: "isConnected wm" and tid1: "tableId wm = Some tid"
    and h1: "h = getDocument wm (''rec_'' @ tid) recordId"
    using fm s1(2-4) conn tid h by (simp_all add: same_registry_def)
  have m: "subscribedDocs wm = subscribedDocs w1" "eventHandlers wm = eventHandlers w1"
          "doc_handlers (docs wm k) = doc_handlers (docs w1 k)"
          "doc_destroyed (docs wm k) = doc_destroyed (docs w1 k)" for k
    using fm by (simp_all add: same_registry_def)
  note s2 = subscribeRecord_state [OF conn1 tid1 tid(2) h1 w2]
  have fr: "same_registry w2 w3"
    unfolding w3 by (rule steps_frame)
  have hs2: "doc_handlers (docs w2 k) =
               (if k = h then adapters recordId h l1 @ adapters recordId h l2
                else doc_handlers (docs w k))" for k
    using s1(8) [of k] s1(8) [of h] s2(8) [of k] m(3) fresh(1) by simp
  have hs3: "doc_handlers (docs w3 h) = concat (map (adapters recordId h) [l1, l2])"
    using fr hs2 [of h] by (simp add: same_registry_def)
  have hs3': "doc_handlers (docs w3 h) =
           [(''load'', handleLoad l1), (''op'', handleOp l1), (''error'', handleError recordId h l1),
            (''load'', handleLoad l2), (''op'', handleOp l2), (''error'', handleError recordId h l2)]"
    using hs3 by (simp add: adapters_def)
  have reg: "registered_listeners w3 recordId
               = insert l2 (insert l1 (registered_listeners w recordId))"
    using fr s1(7) s2(7) m(2) by (simp add: same_registry_def registered_listeners_def)
  have docs3: "subscribedDocs w3 = (subscribedDocs w)(recordId \<mapsto> h)"
    using fr s1(6) s2(6) m(1) by (simp add: same_registry_def)
  have live: "doc_subscribed (docs w3 h) \<and> \<not> doc_destroyed (docs w3 h)"
    using fr s1(10) [of h] s2(9,10) [of h] m(4) [of h] fresh(2) by (simp add: same_registry_def)
  have others: "\<forall>h'. h' \<noteq> h \<longrightarrow> doc_handlers (docs w3 h') = doc_handlers (docs w h')"
    using fr hs2 by (simp add: same_registry_def)
  have deliv: "new_deliveries w3 (emit w3 h e') =
           [(l1, listener_event (doc_data (docs w3 h)) e'),
            (l2, listener_event (doc_data (docs w3 h)) e')]" for e'
    by (simp add: emit_delivers [OF hs3] new_deliveries_def)
  have dom3: "dom (subscribedDocs w3) = insert recordId (dom (subscribedDocs w))"
    using docs3 by simp
  have here: "subscribedDocs w3 recordId = Some h"
    using docs3 by simp
  from s1(1) s2(1) here dom3 live reg hs3' others
       deliv [of "Op event"] deliv [of "Load d"] deliv [of "Error err"]
  show ?thesis by (simp add: snapshot_event_def)
qed

theorem subscribe_twice_one_handle_both_listeners_witness:
  "subscribedDocs
     (snd (subscribeRecord
        (snd (subscribeRecord example_world ''rec1'' 7 [] None))
        ''rec1'' 8 [SetData 1 example_snapshot] None)) ''rec1'' = Some 1
 \<and> dom (subscribedDocs
     (snd (subscribeRecord
        (snd (subscribeRecord example_world ''rec1'' 7 [] None))
        ''rec1'' 8 [SetData 1 example_snapshot] None))) = {''rec1''}
 \<and> doc_handlers (docs
     (snd (subscribeRecord
        (snd (subscribeRecord example_world ''rec1'' 7 [] None))
        ''rec1'' 8 [SetData 1 example_snapshot] None)) 2) = []
 \<and> new_deliveries
     (snd (subscribeRecord
        (snd (subscribeRecord example_world ''rec1'' 7 [] None))
        ''rec1'' 8 [SetData 1 example_snapshot] None))
     (emit
        (snd (subscribeRecord
           (snd (subscribeRecord example_world ''rec1'' 7 [] None))
           ''rec1'' 8 [SetData 1 example_snapshot] None))
        1 (Op \<lparr>ev_op = [\<lparr>op_p = [''data'', ''fld1''], op_oi = Some (JNum 6), op_od = Some (JNum 5)\<rparr>],
               ev_source = False, ev_data = JObj [(''data'', JObj [(''fld1'', JNum 6)])]\<rparr>))
     = [(7, \<lparr>ev_op = [\<lparr>op_p = [''data'', ''fld1''], op_oi = Some (JNum 6), op_od = Some (JNum 5)\<rparr>],
               ev_source = False, ev_data = JObj [(''data'', JObj [(''fld1'', JNum 6)])]\<rparr>),
        (8, \<lparr>ev_op = [\<lparr>op_p = [''data'', ''fld1''], op_oi = Some (JNum 6), op_od = Some (JNum 5)\<rparr>],
               ev_source = False, ev_data = JObj [(''data'', JObj [(''fld1'', JNum 6)])]\<rparr>)]"
  using subscribe_twice_one_handle_both_listeners [where w = example_world and tid = "''tbl1''" and h = 1 and recordId = "''rec1''"
               and ?l1.0 = 7 and ?during1.0 = "[]"
               and ?w1.0 = "snd (subscribeRecord example_world ''rec1'' 7 [] None)"
               and between = "[]"
               and wm = "snd (subscribeRecord example_world ''rec1'' 7 [] None)"
               and ?l2.0 = 8 and ?during2.0 = "[SetData 1 example_snapshot]"
               and ?w2.0 = "snd (subscribeRecord
                  (snd (subscribeRecord example_world ''rec1'' 7 [] None))
                  ''rec1'' 8 [SetData 1 example_snapshot] None)"
               and later = "[]"
               and ?w3.0 = "snd (subscribeRecord
                  (snd (subscribeRecord example_world ''rec1'' 7 [] None))
                  ''rec1'' 8 [SetData 1 example_snapshot] None)"]
  by (simp add: example_world_def fresh_doc_def)

text \<open>The same holds when the two calls overlap: both reach their \<^verbatim>\<open>await\<close> before either
  promise resolves. The calls then resume in either order: \<open>la\<close> is the listener of the call
  that resumes first, \<open>lb\<close> of the other.\<close>

lemma subscribeRecord_resume_state:
  assumes w': "w' = subscribeRecord_resume (doc_subscribe_settled w h None) recordId h onUpdate"
  shows "tableId w' = tableId w" and "isConnected w' = isConnected w"
    and "getDocument w' = getDocument w"
    and "eventHandlers w' = eventHandlers w"
    and "subscribedDocs w' = (subscribedDocs w)(recordId \<mapsto> h)"
    and "doc_handlers (docs w' k) = doc_handlers (docs w k)"
    and "doc_subscribed (docs w' k) = (k = h \<or> doc_subscribed (docs w k))"
    and "doc_destroyed (docs w' k) = doc_destroyed (docs w k)"
  by (simp_all add: w' subscribeRecord_resume_def doc_subscribe_settled_def call_listener_def
                    Let_def)

lemma overlapping_subscribes:
  assumes conn: "isConnected w" and tid: "tableId w = Some tid" "tid \<noteq> []"
    and h: "h = getDocument w (''rec_'' @ tid) recordId"
    and fresh: "doc_handlers (docs w h) = []"
    and b1: "subscribeRecord_begin w recordId l1 = Inr (h1, w1)"
    and wa: "wa = foldl transport w1 da"
    and b2: "subscribeRecord_begin wa recordId l2 = Inr (h2, w2)"
    and wb: "wb = foldl transport w2 db"
    and w3: "w3 = subscribeRecord_resume (doc_subscribe_settled wb h None) recordId h la"
    and wc: "wc = foldl transport w3 dc"
    and w4: "w4 = subscribeRecord_resume (doc_subscribe_settled wc h None) recordId h lb"
    and w5: "w5 = foldl transport w4 later"
  shows "h1 = h \<and> h2 = h
       \<and> subscribedDocs w5 recordId = Some h
       \<and> dom (subscribedDocs w5) = insert recordId (dom (subscribedDocs w))
       \<and> doc_subscribed (docs w5 h)
       \<and> registered_listeners w5 recordId = insert l2 (insert l1 (registered_listeners w recordId))
       \<and> new_deliveries w5 (emit w5 h e) =
           [(l1, listener_event (doc_data (docs w5 h)) e),
            (l2, listener_event (doc_data (docs w5 h)) e)]"
proof -
  note b1' = subscribeRecord_begin_ok [OF conn tid, of recordId l1]
  have h1: "h1 = h"
    and w1: "w1 = w\<lparr>eventHandlers :=
                     (eventHandlers w)(recordId \<mapsto> insert l1 (registered_listeners w recordId)),
                   docs := (docs w)(h := (docs w h)
                       \<lparr>doc_handlers := doc_handlers (docs w h) @ adapters recordId h l1\<rparr>)\<rparr>"
    using b1 [unfolded b1'] h by auto
  have fa: "same_registry w1 wa"
    unfolding wa by (rule steps_frame)
  have conna: "isConnected wa" and tida: "tableId wa = Some tid"
    and ha: "getDocument wa (''rec_'' @ tid) recordId = h"
    using fa conn tid h by (simp_all add: same_registry_def w1)
  note b2' = subscribeRecord_begin_ok [OF conna tida tid(2), of recordId l2]
  have h2: "h2 = h"
    and w2: "w2 = wa\<lparr>eventHandlers :=
                     (eventHandlers wa)(recordId \<mapsto> insert l2 (registered_listeners wa recordId)),
                   docs := (docs wa)(h := (docs wa h)
                       \<lparr>doc_handlers := doc_handlers (docs wa h) @ adapters recordId h l2\<rparr>)\<rparr>"
    using b2 [unfolded b2'] ha by auto
  have fb: "same_registry w2 wb"
    unfolding wb by (rule steps_frame)
  note r3 = subscribeRecord_resume_state [OF w3]
  have fc: "same_registry w3 wc"
    unfolding wc by (rule steps_frame)
  note r4 = subscribeRecord_resume_state [OF w4]
  have fl: "same_registry w4 w5"
    unfolding w5 by (rule steps_frame)
  have hs_a: "doc_handlers (docs wa h) = adapters recordId h l1"
    using fa fresh by (simp add: same_registry_def w1)
  have hs_b: "doc_handlers (docs wb h) = adapters recordId h l1 @ adapters recordId h l2"
    using fb hs_a by (simp add: same_registry_def w2)
  have hs5: "doc_handlers (docs w5 h) = concat (map (adapters recordId h) [l1, l2])"
    using fl fc hs_b r3(6) [of h] r4(6) [of h] by (simp add: same_registry_def)
  have reg_a: "registered_listeners wa recordId = insert l1 (registered_listeners w recordId)"
    using fa by (simp add: same_registry_def w1 registered_listeners_def)
  have reg_b: "registered_listeners wb recordId
                 = insert l2 (insert l1 (registered_listeners w recordId))"
    using fb reg_a by (simp add: same_registry_def w2 registered_listeners_def)
  have reg5: "registered_listeners w5 recordId
                 = insert l2 (insert l1 (registered_listeners w recordId))"
    using fl fc reg_b r3(4) r4(4) by (simp add: same_registry_def registered_listeners_def)
  have docs_b: "subscribedDocs wb = subscribedDocs w"
    using fa fb by (simp add: same_registry_def w1 w2)
  have docs5: "subscribedDocs w5 = (subscribedDocs w)(recordId \<mapsto> h)"
    using fl fc docs_b r3(5) r4(5) by (simp add: same_registry_def)
  have live: "doc_subscribed (docs w5 h)"
    using fl r4(7) [of h] by (simp add: same_registry_def)
  have deliv: "new_deliveries w5 (emit w5 h e) =
           [(l1, listener_event (doc_data (docs w5 h)) e),
            (l2, listener_event (doc_data (docs w5 h)) e)]"
    by (simp add: emit_delivers [OF hs5] new_deliveries_def)
  from h1 h2 docs5 live reg5 deliv show ?thesis by simp
qed

subsection \<open>The callbacks a handle carries\<close>

text \<open>The callbacks of any number of \<open>subscribeRecord\<close> calls, each with its record id and
  its listener, called in turn for one event.\<close>

lemma run_adapters_deliver_calls:
  "foldl (\<lambda>w' f. run_adapter w' f e) w
     (map snd (filter (\<lambda>nf. fst nf = event_name e)
        (concat (map (\<lambda>c. adapters (fst c) h (snd c)) calls))))
   = w\<lparr>delivered := delivered w
          @ map (\<lambda>c. (snd c, listener_event (doc_data (docs w h)) e)) calls,
        console_error := console_error w
          @ (case e of Error err \<Rightarrow>
               map (\<lambda>c. ''ShareDB document error for record '' @ fst c @ '':'') calls
             | _ \<Rightarrow> [])\<rparr>"
proof (induction calls arbitrary: w)
  case Nil
  show ?case by (cases e) simp_all
next
  case (Cons c calls)
  show ?case
    by (simp add: run_adapters_one Cons.IH split: doc_event.splits)
qed

lemma emit_delivers_calls:
  assumes "doc_handlers (docs w h) = concat (map (\<lambda>c. adapters (fst c) h (snd c)) calls)"
  shows "emit w h e =
     w\<lparr>delivered := delivered w
          @ map (\<lambda>c. (snd c, listener_event (doc_data (docs w h)) e)) calls,
        console_error := console_error w
          @ (case e of Error err \<Rightarrow>
               map (\<lambda>c. ''ShareDB document error for record '' @ fst c @ '':'') calls
             | _ \<Rightarrow> [])\<rparr>"
  unfolding emit_def assms by (rule run_adapters_deliver_calls)

text \<open>Every operation of the service, and every step of the transport, keeps the
  callbacks of every handle of that form: it holds in every state the service reaches
  from one where no handle carries a callback.\<close>

lemma service_callbacks_subscribeRecord:
  assumes "service_callbacks w"
  shows "service_callbacks (snd (subscribeRecord w recordId onUpdate during settled))"
proof (cases "isConnected w \<and> (\<exists>tid. tableId w = Some tid \<and> tid \<noteq> [])")
  case True
  then obtain tid where conn: "isConnected w" and tid: "tableId w = Some tid" "tid \<noteq> []"
    by blast
  define h where "h = getDocument w (''rec_'' @ tid) recordId"
  note s = subscribeRecord_state(8) [OF conn tid h_def refl, of onUpdate during settled]
  show ?thesis
    unfolding service_callbacks_def
  proof
    fix k
    obtain calls where c: "doc_handlers (docs w k) =
        concat (map (\<lambda>c. adapters (fst c) k (snd c)) calls)"
      using assms unfolding service_callbacks_def by blast
    show "\<exists>calls'. doc_handlers
             (docs (snd (subscribeRecord w recordId onUpdate during settled)) k) =
           concat (map (\<lambda>c. adapters (fst c) k (snd c)) calls')"
    proof (cases "k = h")
      case True
      have "doc_handlers (docs (snd (subscribeRecord w recordId onUpdate during settled)) k) =
              concat (map (\<lambda>c. adapters (fst c) k (snd c)) (calls @ [(recordId, onUpdate)]))"
        using s [of k] c True by simp
      then show ?thesis by blast
    next
      case False
      then show ?thesis using s [of k] c by auto
    qed
  qed
next
  case False
  then have "subscribeRecord w recordId onUpdate during settled
               = (Some (case subscribeRecord_begin w recordId onUpdate of Inl err \<Rightarrow> err), w)"
    by (auto simp: subscribeRecord_def subscribeRecord_begin_def getCollectionName_def
             split: option.splits)
  then show ?thesis using assms by simp
qed

lemma service_callbacks_same_registry:
  assumes "service_callbacks w" and "same_registry w w'"
  shows "service_callbacks w'"
  using assms by (simp add: service_callbacks_def same_registry_def)

lemma service_callbacks_transport:
  assumes "service_callbacks w"
  shows "service_callbacks (foldl transport w steps)"
  using assms steps_frame [of w steps] by (rule service_callbacks_same_registry)

lemma service_callbacks_unsubscribeRecord:
  assumes "service_callbacks w"
  shows "service_callbacks (unsubscribeRecord w recordId)"
  using assms
  by (simp add: service_callbacks_def unsubscribeRecord_def doc_destroy_def Let_def
           split: option.splits)

lemma service_callbacks_submitFieldUpdate:
  assumes "service_callbacks w"
  shows "service_callbacks (snd (submitFieldUpdate w recordId fieldId newValue oldValue settled))"
  using assms
  by (simp add: service_callbacks_def submitFieldUpdate_def Let_def split: option.splits)

lemma service_callbacks_no_callbacks:
  assumes "\<forall>h. doc_handlers (docs w h) = []"
  shows "service_callbacks w"
  unfolding service_callbacks_def
proof
  fix h
  have "doc_handlers (docs w h) = concat (map (\<lambda>c. adapters (fst c) h (snd c)) [])"
    using assms by simp
  then show "\<exists>calls. doc_handlers (docs w h) =
                concat (map (\<lambda>c. adapters (fst c) h (snd c)) calls)"
    by blast
qed

text \<open>
  C8. An error event on a live handle is not always translated into one snapshot for the
  listener. On the example service, a \<^verbatim>\<open>subscribeRecord\<close> for \<^verbatim>\<open>rec1\<close> with listener 7 is
  rejected and then repeated, and resolves: the registry holds handle 1 for the record,
  subscribed and not destroyed, with the one listener 7 registered. The callbacks of the
  rejected call are still on the handle, so one error event writes two lines to
  \<^verbatim>\<open>console.error\<close> and calls listener 7 twice.
\<close>

theorem error_event_snapshot_per_callback_counterexample:
  "fst (subscribeRecord
          (snd (subscribeRecord example_world ''rec1'' 7 [] (Some (JsError ''subscribe rejected''))))
          ''rec1'' 7 [] None) = None
 \<and> subscribedDocs retried_world ''rec1'' = Some 1
 \<and> doc_subscribed (docs retried_world 1) \<and> \<not> doc_destroyed (docs retried_world 1)
 \<and> registered_listeners retried_world ''rec1'' = {7}
 \<and> new_deliveries retried_world (emit retried_world 1 (Error (JsError ''connection lost''))) =
      [(7, \<lparr>ev_op = [], ev_source = False, ev_data = JObj []\<rparr>),
       (7, \<lparr>ev_op = [], ev_source = False, ev_data = JObj []\<rparr>)]
 \<and> console_error (emit retried_world 1 (Error (JsError ''connection lost''))) =
      [''ShareDB document error for record rec1:'',
       ''ShareDB document error for record rec1:'']
 \<and> length (new_deliveries retried_world
              (emit retried_world 1 (Error (JsError ''connection lost'')))) \<noteq> 1"
  by (simp add: retried_world_def subscribeRecord_def subscribeRecord_begin_def
                getCollectionName_def doc_on_def doc_subscribe_settled_def
                subscribeRecord_resume_def emit_def call_listener_def js_or_def Let_def
                registered_listeners_def new_deliveries_def example_world_def fresh_doc_def)

text \<open>
  C8, as the code has it. On a handle whose callbacks are those \<^verbatim>\<open>subscribeRecord\<close>
  attached (three for each call that reached its \<^verbatim>\<open>await\<close>, resolved or rejected, in
  call order), an error event writes one line to \<^verbatim>\<open>console.error\<close> and delivers one
  snapshot for each such call, to that call's listener, with \<^verbatim>\<open>op: []\<close>, \<^verbatim>\<open>source: false\<close>
  and \<^verbatim>\<open>doc.data || {}\<close>: the handle's data when it is truthy, as every object snapshot
  is, and the empty object when the handle has none (\<^verbatim>\<open>undefined\<close> or \<^verbatim>\<open>null\<close>). Nothing
  else changes: the registry, the handles and their callbacks are as before, so the
  subscription goes on. Listeners are calls that return, so nothing is thrown.
\<close>

theorem error_event_snapshot_per_callback:
  assumes hs: "doc_handlers (docs w h) =
                 concat (map (\<lambda>c. [(''load'', handleLoad (snd c)), (''op'', handleOp (snd c)),
                                    (''error'', handleError (fst c) h (snd c))]) calls)"
    and w': "w' = emit w h (Error err)"
  shows "new_deliveries w w' =
           map (\<lambda>c. (snd c, \<lparr>ev_op = [], ev_source = False,
                             ev_data = (if js_truthy (doc_data (docs w h))
                                        then doc_data (docs w h) else JObj [])\<rparr>)) calls
       \<and> (doc_data (docs w h) = JUndefined \<or> doc_data (docs w h) = JNull \<longrightarrow>
            map (\<lambda>d. ev_data (snd d)) (new_deliveries w w') = map (\<lambda>c. JObj []) calls)
       \<and> (\<forall>ps. doc_data (docs w h) = JObj ps \<longrightarrow>
            map (\<lambda>d. ev_data (snd d)) (new_deliveries w w') = map (\<lambda>c. JObj ps) calls)
       \<and> console_error w' =
           console_error w
           @ map (\<lambda>c. ''ShareDB document error for record '' @ fst c @ '':'') calls
       \<and> tableId w' = tableId w \<and> subscribedDocs w' = subscribedDocs w
       \<and> eventHandlers w' = eventHandlers w \<and> isConnected w' = isConnected w
       \<and> docs w' = docs w \<and> submitted w' = submitted w"
proof -
  have hs': "doc_handlers (docs w h) = concat (map (\<lambda>c. adapters (fst c) h (snd c)) calls)"
    using hs by (simp add: adapters_def)
  note e = emit_delivers_calls [OF hs', of "Error err"]
  have deliv: "new_deliveries w w' =
           map (\<lambda>c. (snd c, \<lparr>ev_op = [], ev_source = False,
                             ev_data = (if js_truthy (doc_data (docs w h))
                                        then doc_data (docs w h) else JObj [])\<rparr>)) calls"
    by (simp add: w' e new_deliveries_def snapshot_event_def)
  have absent: "doc_data (docs w h) = JUndefined \<or> doc_data (docs w h) = JNull \<longrightarrow>
            map (\<lambda>d. ev_data (snd d)) (new_deliveries w w') = map (\<lambda>c. JObj []) calls"
    by (auto simp: deliv)
  have object: "\<forall>ps. doc_data (docs w h) = JObj ps \<longrightarrow>
            map (\<lambda>d. ev_data (snd d)) (new_deliveries w w') = map (\<lambda>c. JObj ps) calls"
    by (auto simp: deliv)
  have log: "console_error w' =
           console_error w
           @ map (\<lambda>c. ''ShareDB document error for record '' @ fst c @ '':'') calls"
    by (simp add: w' e)
  have same: "tableId w' = tableId w \<and> subscribedDocs w' = subscribedDocs w
       \<and> eventHandlers w' = eventHandlers w \<and> isConnected w' = isConnected w
       \<and> docs w' = docs w \<and> submitted w' = submitted w"
    by (simp add: w' e)
  from deliv absent object log same show ?thesis by blast
qed

theorem error_event_snapshot_per_callback_witness:
  "new_deliveries retried_world (emit retried_world 1 (Error (JsError ''connection lost''))) =
      [(7, \<lparr>ev_op = [], ev_source = False, ev_data = JObj []\<rparr>),
       (7, \<lparr>ev_op = [], ev_source = False, ev_data = JObj []\<rparr>)]
 \<and> new_deliveries
      (foldl transport
         (snd (subscribeRecord (snd (subscribeRecord example_world ''rec1'' 7 [] None))
                 ''rec1'' 8 [] None))
         [SetData 1 example_snapshot])
      (emit
         (foldl transport
            (snd (subscribeRecord (snd (subscribeRecord example_world ''rec1'' 7 [] None))
                    ''rec1'' 8 [] None))
            [SetData 1 example_snapshot])
         1 (Error (JsError ''connection lost''))) =
      [(7, \<lparr>ev_op = [], ev_source = False, ev_data = example_snapshot\<rparr>),
       (8, \<lparr>ev_op = [], ev_source = False, ev_data = example_snapshot\<rparr>)]
 \<and> subscribedDocs
      (emit
         (foldl transport
            (snd (subscribeRecord (snd (subscribeRecord example_world ''rec1'' 7 [] None))
                    ''rec1'' 8 [] None))
            [SetData 1 example_snapshot])
         1 (Error (JsError ''connection lost''))) ''rec1'' = Some 1"
proof -
  have h1: "doc_handlers (docs retried_world 1) =
              concat (map (\<lambda>c. [(''load'', handleLoad (snd c)), (''op'', handleOp (snd c)),
                                 (''error'', handleError (fst c) 1 (snd c))])
                        [(''rec1'', 7), (''rec1'', 7)])"
       and d1: "doc_data (docs retried_world 1) = JUndefined"
    by (simp_all add: retried_world_def subscribeRecord_def subscribeRecord_begin_def
                  getCollectionName_def doc_on_def doc_subscribe_settled_def
                  subscribeRecord_resume_def Let_def example_world_def fresh_doc_def)
  have h2: "doc_handlers (docs
              (foldl transport
                 (snd (subscribeRecord (snd (subscribeRecord example_world ''rec1'' 7 [] None))
                         ''rec1'' 8 [] None))
                 [SetData 1 example_snapshot]) 1) =
              concat (map (\<lambda>c. [(''load'', handleLoad (snd c)), (''op'', handleOp (snd c)),
                                 (''error'', handleError (fst c) 1 (snd c))])
                        [(''rec1'', 7), (''rec1'', 8)])"
       and d2: "doc_data (docs
              (foldl transport
                 (snd (subscribeRecord (snd (subscribeRecord example_world ''rec1'' 7 [] None))
                         ''rec1'' 8 [] None))
                 [SetData 1 example_snapshot]) 1) = example_snapshot"
       and s2: "subscribedDocs
              (foldl transport
                 (snd (subscribeRecord (snd (subscribeRecord example_world ''rec1'' 7 [] None))
                         ''rec1'' 8 [] None))
                 [SetData 1 example_snapshot]) ''rec1'' = Some 1"
    by (simp_all add: subscribeRecord_def subscribeRecord_begin_def
                  getCollectionName_def doc_on_def doc_subscribe_settled_def
                  subscribeRecord_resume_def Let_def example_world_def fresh_doc_def)
  show ?thesis
    using error_event_snapshot_per_callback [OF h1 refl, of "JsError ''connection lost''"]
          error_event_snapshot_per_callback [OF h2 refl, of "JsError ''connection lost''"] d1 d2 s2
    by (simp add: example_snapshot_def)
qed

text \<open>In particular, after one resolved \<^verbatim>\<open>subscribeRecord\<close> on a handle that carried no
  callbacks, and whatever the transport did since, an error event logs once and calls the
  listener once.\<close>

lemma error_event_after_one_subscribe:
  assumes conn: "isConnected w" and tid: "tableId w = Some tid" "tid \<noteq> []"
    and h: "h = getDocument w (''rec_'' @ tid) recordId"
    and fresh: "doc_handlers (docs w h) = []"
    and w1: "w1 = snd (subscribeRecord w recordId onUpdate during None)"
    and w2: "w2 = foldl transport w1 later"
    and w3: "w3 = emit w2 h (Error err)"
  shows "new_deliveries w2 w3 =
           [(onUpdate, \<lparr>ev_op = [], ev_source = False,
                        ev_data = (if js_truthy (doc_data (docs w2 h))
                                   then doc_data (docs w2 h) else JObj [])\<rparr>)]
       \<and> (doc_data (docs w2 h) = JUndefined \<or> doc_data (docs w2 h) = JNull \<longrightarrow>
            map (\<lambda>d. ev_data (snd d)) (new_deliveries w2 w3) = [JObj []])
       \<and> (\<forall>ps. doc_data (docs w2 h) = JObj ps \<longrightarrow>
            map (\<lambda>d. ev_data (snd d)) (new_deliveries w2 w3) = [JObj ps])
       \<and> console_error w3 =
           console_error w2 @ [''ShareDB document error for record '' @ recordId @ '':'']
       \<and> subscribedDocs w3 recordId = Some h
       \<and> onUpdate \<in> registered_listeners w3 recordId
       \<and> docs w3 = docs w2
       \<and> doc_subscribed (docs w3 h)
       \<and> doc_handlers (docs w3 h) =
           [(''load'', handleLoad onUpdate), (''op'', handleOp onUpdate),
            (''error'', handleError recordId h onUpdate)]"
proof -
  note s1 = subscribeRecord_state [OF conn tid h w1]
  have fr: "same_registry w1 w2"
    unfolding w2 by (rule steps_frame)
  have hs2: "doc_handlers (docs w2 h) = concat (map (adapters recordId h) [onUpdate])"
    using fr s1(8) [of h] fresh by (simp add: same_registry_def)
  note e = emit_delivers [OF hs2, of "Error err"]
  have deliv: "new_deliveries w2 w3 =
           [(onUpdate, \<lparr>ev_op = [], ev_source = False,
                        ev_data = (if js_truthy (doc_data (docs w2 h))
                                   then doc_data (docs w2 h) else JObj [])\<rparr>)]"
    by (simp add: w3 e new_deliveries_def snapshot_event_def)
  have log: "console_error w3 =
           console_error w2 @ [''ShareDB document error for record '' @ recordId @ '':'']"
    by (simp add: w3 e)
  have same: "docs w3 = docs w2" "subscribedDocs w3 = subscribedDocs w2"
             "eventHandlers w3 = eventHandlers w2"
    by (simp_all add: w3 e)
  have reg: "subscribedDocs w2 recordId = Some h" "onUpdate \<in> registered_listeners w2 recordId"
            "doc_subscribed (docs w2 h)"
    using fr s1(6,7) s1(9) [of h] by (simp_all add: same_registry_def registered_listeners_def)
  have hl: "doc_handlers (docs w3 h) =
           [(''load'', handleLoad onUpdate), (''op'', handleOp onUpdate),
            (''error'', handleError recordId h onUpdate)]"
    using hs2 same(1) by (simp add: adapters_def)
  show ?thesis
    using deliv log same reg hl by (simp add: registered_listeners_def)
qed

text \<open>
  C9. When the promise of \<^verbatim>\<open>doc.subscribe()\<close> rejects, \<^verbatim>\<open>subscribeRecord\<close> throws the
  rejection and \<^verbatim>\<open>subscribedDocs\<close> is as before, so the call adds no handle. But the
  listener was added to \<^verbatim>\<open>eventHandlers\<close> and the three callbacks were attached to the
  handle before the \<^verbatim>\<open>await\<close>, and they stay: on the example service the listener 7 is
  still registered for \<^verbatim>\<open>rec1\<close> after the rejected call.
\<close>

theorem rejected_subscribe_keeps_listener_counterexample:
  "fst (subscribeRecord example_world ''rec1'' 7 [] (Some (JsError ''subscribe rejected'')))
     = Some (JsError ''subscribe rejected'')
 \<and> registered_listeners
     (snd (subscribeRecord example_world ''rec1'' 7 [] (Some (JsError ''subscribe rejected''))))
     ''rec1'' = {7}
 \<and> \<not> (subscribedDocs
         (snd (subscribeRecord example_world ''rec1'' 7 [] (Some (JsError ''subscribe rejected''))))
         ''rec1'' = None
       \<and> registered_listeners
         (snd (subscribeRecord example_world ''rec1'' 7 [] (Some (JsError ''subscribe rejected''))))
         ''rec1'' = {})"
  by (simp add: subscribeRecord_def subscribeRecord_begin_def getCollectionName_def doc_on_def
                doc_subscribe_settled_def Let_def registered_listeners_def
                example_world_def fresh_doc_def)

text \<open>
  C9, as the code has it. A rejected \<^verbatim>\<open>subscribeRecord\<close> throws the rejection and leaves
  \<^verbatim>\<open>subscribedDocs\<close> unchanged; the listener stays in the record's listener set and its
  three callbacks stay on the handle, which is not marked subscribed by the call. A
  later \<^verbatim>\<open>unsubscribeRecord\<close> for the record empties the listener set and leaves no
  handle for it.
\<close>

theorem rejected_subscribe_keeps_listener:
  assumes conn: "isConnected w" and tid: "tableId w = Some tid" "tid \<noteq> []"
    and h: "h = getDocument w (''rec_'' @ tid) recordId"
    and w': "w' = snd (subscribeRecord w recordId onUpdate during (Some err))"
  shows "fst (subscribeRecord w recordId onUpdate during (Some err)) = Some err
       \<and> subscribedDocs w' = subscribedDocs w
       \<and> registered_listeners w' recordId = insert onUpdate (registered_listeners w recordId)
       \<and> doc_handlers (docs w' h) =
           doc_handlers (docs w h)
           @ [(''load'', handleLoad onUpdate), (''op'', handleOp onUpdate),
              (''error'', handleError recordId h onUpdate)]
       \<and> doc_subscribed (docs w' h) = doc_subscribed (docs w h)
       \<and> registered_listeners (unsubscribeRecord w' recordId) recordId = {}
       \<and> subscribedDocs (unsubscribeRecord w' recordId) recordId = None"
proof -
  note s = subscribeRecord_state [OF conn tid h w']
  have u: "registered_listeners (unsubscribeRecord w' recordId) recordId = {}
         \<and> subscribedDocs (unsubscribeRecord w' recordId) recordId = None"
    by (simp add: unsubscribeRecord_def doc_destroy_def registered_listeners_def Let_def
             split: option.splits)
  show ?thesis
    using s(1) s(6) s(7) s(8) [of h] s(9) [of h] u
    by (simp add: registered_listeners_def adapters_def)
qed

theorem rejected_subscribe_keeps_listener_witness:
  "fst (subscribeRecord example_world ''rec1'' 7 [Emit 1 (Load example_snapshot)]
          (Some (JsError ''subscribe rejected''))) = Some (JsError ''subscribe rejected'')
 \<and> subscribedDocs
     (snd (subscribeRecord example_world ''rec1'' 7 [Emit 1 (Load example_snapshot)]
             (Some (JsError ''subscribe rejected'')))) ''rec1'' = None
 \<and> registered_listeners
     (snd (subscribeRecord example_world ''rec1'' 7 [Emit 1 (Load example_snapshot)]
             (Some (JsError ''subscribe rejected'')))) ''rec1'' = {7}
 \<and> doc_handlers (docs
     (snd (subscribeRecord example_world ''rec1'' 7 [Emit 1 (Load example_snapshot)]
             (Some (JsError ''subscribe rejected'')))) 1)
     = [(''load'', handleLoad 7), (''op'', handleOp 7), (''error'', handleError ''rec1'' 1 7)]"
  using rejected_subscribe_keeps_listener [where w = example_world and tid = "''tbl1''" and h = 1 and recordId = "''rec1''"
               and onUpdate = 7 and during = "[Emit 1 (Load example_snapshot)]"
               and err = "JsError ''subscribe rejected''"
               and w' = "snd (subscribeRecord example_world ''rec1'' 7
                                [Emit 1 (Load example_snapshot)]
                                (Some (JsError ''subscribe rejected'')))"]
  by (simp add: example_world_def fresh_doc_def registered_listeners_def)

end
